theory Spec2Isabelle
  imports Main
begin

section \<open>SSHTerminal (the plugin's terminal front-end)\<close>

text \<open>
  A dereference of a null pointer ends the run of the C++ code; the model returns it as
  the left injection of a sum.
\<close>

datatype fault = NullDereference

abbreviation NL :: char where
  "NL \<equiv> CHR 0x0A"

subsection \<open>SSHTerminal::verifyKnownHost\<close>

text \<open>
  The values \<open>ssh_is_server_known\<close> hands back. The \<open>switch\<close> of
  \<open>verifyKnownHost\<close> has one label for each of them.
\<close>

datatype ssh_server_known_e =
    SSH_SERVER_ERROR
  | SSH_SERVER_NOT_KNOWN
  | SSH_SERVER_KNOWN_OK
  | SSH_SERVER_KNOWN_CHANGED
  | SSH_SERVER_FOUND_OTHER
  | SSH_SERVER_FILE_NOT_FOUND

text \<open>
  What the function leaves behind: the return code, the string behind the reference
  parameter \<open>error\<close>, and the text written to \<open>stderr\<close>.
\<close>

record vkh =
  retCode :: int
  error :: string
  stderr :: string

definition fprintf_stderr :: "string \<Rightarrow> vkh \<Rightarrow> vkh" where
  "fprintf_stderr txt v = v\<lparr>stderr := stderr v @ txt\<rparr>"

text \<open>
  \<open>hexa\<close> stays \<open>NULL\<close> when no hash was obtained. The two labels that print it
  call \<open>strlen(hexa)\<close>, which reads through the pointer.
\<close>

definition case_KNOWN_CHANGED :: "string option \<Rightarrow> vkh \<Rightarrow> fault + vkh" where
  "case_KNOWN_CHANGED hexa v =
     (case hexa of
        None \<Rightarrow> Inl NullDereference
      | Some h \<Rightarrow>
          (let v1 = v\<lparr>retCode := -1\<rparr>;
               v2 = fprintf_stderr (''Host key for server changed : server's one is now :'' @ [NL]) v1;
               v3 = fprintf_stderr (''Public key hash is '' @ h @ [NL]) v2;
               v4 = fprintf_stderr (''For security reason, connection will be stopped'' @ [NL]) v3;
               v5 = v4\<lparr>error := ''Host key for server changed : server's one is now :'' @ [NL]\<rparr>;
               v6 = v5\<lparr>error := error v5 @ ''Public key hash: ''\<rparr>;
               v7 = v6\<lparr>error := error v6 @ (h @ [NL])\<rparr>;
               v8 = v7\<lparr>error := error v7 @ ''For security reason, connection will be stopped'' @ [NL]\<rparr>
           in Inr v8))"

definition case_FOUND_OTHER :: "vkh \<Rightarrow> fault + vkh" where
  "case_FOUND_OTHER v =
     (let v1 = v\<lparr>retCode := -1\<rparr>;
          v2 = fprintf_stderr
                 (''The host key for this server was not found but an other type of key exists.'' @ [NL]) v1;
          v3 = fprintf_stderr
                 (''An attacker might change the default server key to confuse your client''
                  @ ''into thinking the key does not exist'' @ [NL]
                  @ ''We advise you to rerun the client with -d or -r for more safety.'' @ [NL]) v2;
          v4 = v3\<lparr>error :=
                 ''The host key for this server was not found but an other type of key exists.'' @ [NL]\<rparr>;
          v5 = v4\<lparr>error := error v4
                 @ ''An attacker might change the default server key to confuse your client''\<rparr>;
          v6 = v5\<lparr>error := error v5 @ ''into thinking the key does not exist'' @ [NL]\<rparr>;
          v7 = v6\<lparr>error := error v6
                 @ ''We advise you to rerun the client with -d or -r for more safety.'' @ [NL]\<rparr>
      in Inr v7)"

definition case_NOT_KNOWN :: "string option \<Rightarrow> vkh \<Rightarrow> fault + vkh" where
  "case_NOT_KNOWN hexa v =
     (case hexa of
        None \<Rightarrow> Inl NullDereference
      | Some h \<Rightarrow>
          (let v1 = v\<lparr>retCode := 1\<rparr>;
               v2 = fprintf_stderr (''The server is unknown.'' @ [NL]) v1;
               v3 = fprintf_stderr (''Public key hash is '' @ h @ [NL]) v2;
               v4 = fprintf_stderr ''Do you trust the host key (yes/no)? '' v3;
               v5 = v4\<lparr>error := ''The server is unknown.'' @ [NL]\<rparr>;
               v6 = v5\<lparr>error := error v5 @ ''Public key hash is ''\<rparr>;
               v7 = v6\<lparr>error := error v6 @ (h @ [NL])\<rparr>;
               v8 = v7\<lparr>error := error v7 @ ''Do you trust the host key?''\<rparr>
           in Inr v8))"

text \<open>
  The label \<open>SSH_SERVER_FILE_NOT_FOUND\<close> has no \<open>break\<close>: after its own
  statements control runs on into the statements of \<open>SSH_SERVER_NOT_KNOWN\<close>.
\<close>

definition case_FILE_NOT_FOUND :: "string option \<Rightarrow> vkh \<Rightarrow> fault + vkh" where
  "case_FILE_NOT_FOUND hexa v =
     (let v1 = fprintf_stderr
                 (''Could not find known host file. If you accept the host key here,'' @ [NL]) v;
          v2 = fprintf_stderr (''the file will be automatically created.'' @ [NL]) v1;
          v3 = v2\<lparr>error := ''Could not find known host file. If you accept the host key here,'' @ [NL]\<rparr>;
          v4 = v3\<lparr>error := error v3 @ ''the file will be automatically created.'' @ [NL]\<rparr>
      in case_NOT_KNOWN hexa v4)"

definition case_ERROR :: "string \<Rightarrow> vkh \<Rightarrow> fault + vkh" where
  "case_ERROR session_error v =
     (let v1 = v\<lparr>retCode := -1\<rparr>;
          v2 = v1\<lparr>error := session_error\<rparr>;
          v3 = fprintf_stderr (error v2) v2
      in Inr v3)"

text \<open>
  \<open>verifyKnownHost\<close>. Its inputs: the string the caller passes by reference, the text
  already on \<open>stderr\<close>, what \<open>getPubKeyHash\<close> delivered (the hash pointer and the
  length), the library's \<open>ssh_get_hexa\<close> (it may hand back \<open>NULL\<close>), the value of
  \<open>isServerKnown\<close> and the session's error text.
\<close>

definition verifyKnownHost ::
  "string \<Rightarrow> string \<Rightarrow> 'h option \<Rightarrow> int \<Rightarrow> ('h \<Rightarrow> int \<Rightarrow> string option)
     \<Rightarrow> ssh_server_known_e \<Rightarrow> string \<Rightarrow> fault + vkh" where
  "verifyKnownHost error0 stderr0 hash len ssh_get_hexa state session_error =
     (let hexa = (case hash of
                    None \<Rightarrow> None
                  | Some hsh \<Rightarrow> if len > 0 then ssh_get_hexa hsh len else None);
          v = \<lparr>retCode = 0, error = error0, stderr = stderr0\<rparr>
      in case state of
           SSH_SERVER_KNOWN_OK \<Rightarrow> Inr v
         | SSH_SERVER_KNOWN_CHANGED \<Rightarrow> case_KNOWN_CHANGED hexa v
         | SSH_SERVER_FOUND_OTHER \<Rightarrow> case_FOUND_OTHER v
         | SSH_SERVER_FILE_NOT_FOUND \<Rightarrow> case_FILE_NOT_FOUND hexa v
         | SSH_SERVER_NOT_KNOWN \<Rightarrow> case_NOT_KNOWN hexa v
         | SSH_SERVER_ERROR \<Rightarrow> case_ERROR session_error v)"

subsection \<open>SSHTerminal::write\<close>

text \<open>
  The terminal holds the session (of which \<open>write\<close> asks only \<open>isConnected\<close>) and
  the pointer \<open>m_channel\<close>, \<open>None\<close> when it is null. Of the channel the guard asks
  \<open>isOpen\<close> and \<open>isEof\<close>.
\<close>

record channel_obj =
  chan_isOpen :: bool
  chan_isEof :: bool

record terminal =
  session_isConnected :: bool
  m_channel :: "channel_obj option"

definition deref :: "channel_obj option \<Rightarrow> (channel_obj \<Rightarrow> 'a) \<Rightarrow> fault + 'a" where
  "deref p f = (case p of None \<Rightarrow> Inl NullDereference | Some c \<Rightarrow> Inr (f c))"

text \<open>
  The guard \<open>!m_channel && (!m_channel->isOpen() || m_channel->isEof())\<close>, evaluated
  left to right with the short circuits of \<open>&&\<close> and \<open>||\<close>.
\<close>

definition write_guard :: "channel_obj option \<Rightarrow> fault + bool" where
  "write_guard p =
     (if p = None then
        (case deref p chan_isOpen of
           Inl f \<Rightarrow> Inl f
         | Inr opn \<Rightarrow> if \<not> opn then Inr True else deref p chan_isEof)
      else Inr False)"

text \<open>
  \<open>Channel::write\<close> belongs to the library's C++ wrapper; it is the parameter
  \<open>channel_write\<close>, called with the channel, the bytes and their count.
\<close>

definition write_term ::
  "(channel_obj \<Rightarrow> string \<Rightarrow> nat \<Rightarrow> int) \<Rightarrow> terminal \<Rightarrow> char \<Rightarrow> fault + int" where
  "write_term channel_write t keyCode =
     (if \<not> session_isConnected t then Inr (-1)
      else case write_guard (m_channel t) of
             Inl f \<Rightarrow> Inl f
           | Inr True \<Rightarrow> Inr (-1)
           | Inr False \<Rightarrow> deref (m_channel t) (\<lambda>c. channel_write c [keyCode] 1))"

section \<open>libssh: the session and what the client code asks of the rest of the library\<close>

text \<open>
  The enumerations of \<open>session.h\<close>, with the enumerators that \<open>client.c\<close> and
  \<open>auth1.c\<close> name.
\<close>

datatype ssh_session_state_e =
    SSH_SESSION_STATE_NONE
  | SSH_SESSION_STATE_CONNECTING
  | SSH_SESSION_STATE_SOCKET_CONNECTED
  | SSH_SESSION_STATE_BANNER_RECEIVED
  | SSH_SESSION_STATE_INITIAL_KEX
  | SSH_SESSION_STATE_KEXINIT_RECEIVED
  | SSH_SESSION_STATE_DH
  | SSH_SESSION_STATE_AUTHENTICATING
  | SSH_SESSION_STATE_AUTHENTICATED
  | SSH_SESSION_STATE_ERROR
  | SSH_SESSION_STATE_DISCONNECTED

datatype ssh_dh_state_e =
    DH_STATE_INIT
  | DH_STATE_INIT_SENT
  | DH_STATE_NEWKEYS_SENT
  | DH_STATE_FINISHED

datatype ssh_auth_service_state_e =
    SSH_AUTH_SERVICE_NONE
  | SSH_AUTH_SERVICE_SENT
  | SSH_AUTH_SERVICE_ACCEPTED
  | SSH_AUTH_SERVICE_DENIED
  | SSH_AUTH_SERVICE_USER_SENT

text \<open>
  \<open>ssh_connect\<close> names two pending calls; \<open>SSH_PENDING_CALL_OTHER\<close> stands for the
  remaining enumerators, which reach the \<open>default\<close> label.
\<close>

datatype ssh_pending_call_e =
    SSH_PENDING_CALL_NONE
  | SSH_PENDING_CALL_CONNECT
  | SSH_PENDING_CALL_OTHER nat

text \<open>
  The return codes are macros of \<open>libssh.h\<close>; the client code only assigns and
  compares them with each other, so they are kept as names.
\<close>

datatype ssh_rc = SSH_OK | SSH_ERROR | SSH_AGAIN

datatype ssh_error_types_e = SSH_NO_ERROR | SSH_REQUEST_DENIED | SSH_FATAL

text \<open>
  Message codes, and the typed fields a wire buffer holds (a type byte, or a byte string
  with its length prefix).
\<close>

datatype ssh2_msg =
    SSH2_MSG_DISCONNECT
  | SSH2_MSG_SERVICE_REQUEST
  | SSH2_MSG_KEXINIT
  | SSH2_MSG_NEWKEYS
  | SSH2_MSG_KEXDH_INIT

datatype wire_field = U8 ssh2_msg | SSH_String string

text \<open>What went out on the socket: raw bytes (the banner) or a framed packet.\<close>

datatype wire_out = Raw string | Packet "wire_field list"

text \<open>The callbacks a session can have installed for incoming socket data.\<close>

datatype data_callback =
    No_data_callback
  | Callback_receive_banner
  | Ssh_packet_socket_callback
  | Ssh_packet_socket_callback1

text \<open>
  The session. Cryptographic contexts are held by pointer (\<open>None\<close> is \<open>NULL\<close>);
  \<open>socket_open\<close> and \<open>socket_out\<close> are the state of the session's socket and what
  was written to it.
\<close>

record session =
  session_state :: ssh_session_state_e
  dh_handshake_state :: ssh_dh_state_e
  auth_service_state :: ssh_auth_service_state_e
  pending_call_state :: ssh_pending_call_e
  serverbanner :: "string option"
  clientbanner :: "string option"
  xbanner :: "string option"
  version :: int
  ssh1 :: int
  ssh2 :: int
  server :: int
  client :: int
  connected :: int
  alive :: int
  current_crypto :: "nat option"
  next_crypto :: "nat option"
  dh_server_signature :: "string option"
  out_buffer :: "wire_field list"
  socket_open :: bool
  socket_out :: "wire_out list"
  socket_data_callback :: data_callback
  error_code :: ssh_error_types_e
  error_buffer :: string
  fd :: "int option"
  host :: "string option"
  ProxyCommand :: "string option"
  timeout :: int
  timeout_usec :: int
  blocking :: bool
  sshdir :: "string option"
  username :: "string option"
  knownhosts :: "string option"
  identity :: "string list"

text \<open>
  Modelled from the spec: \<open>ssh_set_error\<close> (\<open>error.c\<close>). Errors carry a code and a
  message string retained on the session. The message kept here is the format string;
  its arguments are not rendered.
\<close>

definition ssh_set_error :: "ssh_error_types_e \<Rightarrow> string \<Rightarrow> session \<Rightarrow> session" where
  "ssh_set_error code msg s = s\<lparr>error_code := code, error_buffer := msg\<rparr>"

text \<open>
  Modelled from the spec: \<open>buffer_add_u8\<close> and \<open>buffer_add_ssh_string\<close>
  (\<open>buffer.c\<close>) append to the tail of the output buffer. They fail when the buffer
  cannot grow; whether it can is the argument \<open>ok\<close>. The result is the C return value.
\<close>

definition buffer_add_u8 :: "bool \<Rightarrow> ssh2_msg \<Rightarrow> session \<Rightarrow> int \<times> session" where
  "buffer_add_u8 ok m s =
     (if ok then (0, s\<lparr>out_buffer := out_buffer s @ [U8 m]\<rparr>) else (-1, s))"

definition buffer_add_ssh_string :: "bool \<Rightarrow> string \<Rightarrow> session \<Rightarrow> int \<times> session" where
  "buffer_add_ssh_string ok str s =
     (if ok then (0, s\<lparr>out_buffer := out_buffer s @ [SSH_String str]\<rparr>) else (-1, s))"

text \<open>
  Modelled from the spec: \<open>buffer_get_ssh_string\<close> reads a length-prefixed string at
  the head cursor of a received packet, and gives \<open>NULL\<close> when there is none.
\<close>

definition buffer_get_ssh_string :: "wire_field list \<Rightarrow> string option \<times> wire_field list" where
  "buffer_get_ssh_string packet =
     (case packet of
        SSH_String str # rest \<Rightarrow> (Some str, rest)
      | _ \<Rightarrow> (None, packet))"

text \<open>
  Modelled from the spec: \<open>packet_send\<close> (\<open>packet.c\<close>) frames the output buffer and
  hands it to the transport; the buffer is then empty. On failure nothing goes out and the
  partly built packet is discarded.
\<close>

definition packet_send :: "bool \<Rightarrow> session \<Rightarrow> ssh_rc \<times> session" where
  "packet_send ok s =
     (if ok then (SSH_OK, s\<lparr>socket_out := socket_out s @ [Packet (out_buffer s)], out_buffer := []\<rparr>)
      else (SSH_ERROR, s\<lparr>out_buffer := []\<rparr>))"

text \<open>
  Modelled from the spec: \<open>ssh_socket_write\<close> and \<open>ssh_socket_close\<close>
  (\<open>socket.c\<close>), the byte-stream transport's write and close.
\<close>

definition ssh_socket_write :: "bool \<Rightarrow> string \<Rightarrow> session \<Rightarrow> ssh_rc \<times> session" where
  "ssh_socket_write ok bytes s =
     (if ok then (SSH_OK, s\<lparr>socket_out := socket_out s @ [Raw bytes]\<rparr>) else (SSH_ERROR, s))"

definition ssh_socket_close :: "session \<Rightarrow> session" where
  "ssh_socket_close s = s\<lparr>socket_open := False\<rparr>"

section \<open>libssh: \<open>client.c\<close>\<close>

subsection \<open>callback_receive_banner\<close>

abbreviation CR :: char where
  "CR \<equiv> CHR 0x0D"

abbreviation NUL :: char where
  "NUL \<equiv> CHR 0x00"

text \<open>\<open>strdup\<close> copies a C string: the bytes before the first NUL.\<close>

definition strdup :: "string \<Rightarrow> string" where
  "strdup buffer = takeWhile (\<lambda>c. c \<noteq> NUL) buffer"

text \<open>What the loop leaves in the place of a byte it has passed.\<close>

definition cr_to_nul :: "char \<Rightarrow> char" where
  "cr_to_nul c = (if c = CR then NUL else c)"

text \<open>
  The \<open>for\<close> loop over the received bytes. It writes into the buffer it was given
  (a carriage return and the newline become NUL), so the buffer is part of the result,
  with the return value and the session. \<open>cb\<close> is the function behind
  \<open>session->ssh_connection_callback\<close>. The packet-capture branch (\<open>WITH_PCAP\<close>)
  only copies bytes to the capture file and is left out.
\<close>

function callback_receive_banner_loop ::
  "(session \<Rightarrow> session) \<Rightarrow> nat \<Rightarrow> string \<Rightarrow> session \<Rightarrow> nat \<times> string \<times> session" where
  "callback_receive_banner_loop cb i buffer s =
     (if i < length buffer then
        (let buffer1 = (if buffer ! i = CR then buffer[i := NUL] else buffer)
         in if buffer1 ! i = NL then
              (let buffer2 = buffer1[i := NUL];
                   str = strdup buffer2;
                   ret = i + 1;
                   s1 = s\<lparr>serverbanner := Some str\<rparr>;
                   s2 = s1\<lparr>session_state := SSH_SESSION_STATE_BANNER_RECEIVED\<rparr>
               in (ret, buffer2, cb s2))
            else if i > 127 then
              (0, buffer1,
               ssh_set_error SSH_FATAL ''Receiving banner: too large banner''
                 (s\<lparr>session_state := SSH_SESSION_STATE_ERROR\<rparr>))
            else callback_receive_banner_loop cb (i + 1) buffer1 s)
      else (0, buffer, s))"
  by pat_completeness auto
termination
  by (relation "measure (\<lambda>(cb, i, buffer, s). length buffer - i)") auto

declare callback_receive_banner_loop.simps [simp del]

definition callback_receive_banner ::
  "(session \<Rightarrow> session) \<Rightarrow> string \<Rightarrow> session \<Rightarrow> (ssh_rc + nat) \<times> string \<times> session" where
  "callback_receive_banner cb data s =
     (if session_state s \<noteq> SSH_SESSION_STATE_SOCKET_CONNECTED then
        (Inl SSH_ERROR, data,
         ssh_set_error SSH_FATAL ''Wrong state in callback_receive_banner : %d'' s)
      else (case callback_receive_banner_loop cb 0 data s of
              (ret, buffer, s') \<Rightarrow> (Inr ret, buffer, s')))"

subsection \<open>socket_callback_connected\<close>

definition socket_callback_connected ::
  "(session \<Rightarrow> session) \<Rightarrow> bool \<Rightarrow> session \<Rightarrow> session" where
  "socket_callback_connected cb code_is_CONNECTED_OK s =
     (if session_state s \<noteq> SSH_SESSION_STATE_CONNECTING then
        ssh_set_error SSH_FATAL ''Wrong state in socket_callback_connected : %d'' s
      else if code_is_CONNECTED_OK then
        cb (s\<lparr>session_state := SSH_SESSION_STATE_SOCKET_CONNECTED\<rparr>)
      else
        cb (ssh_set_error SSH_FATAL ''%s'' (s\<lparr>session_state := SSH_SESSION_STATE_ERROR\<rparr>)))"

subsection \<open>ssh_send_banner\<close>

text \<open>
  The banner texts \<open>CLIENTBANNER1\<close> and \<open>CLIENTBANNER2\<close> are macros of the headers
  and come as arguments. \<open>snprintf\<close> into 128 bytes keeps at most 127 characters.
\<close>

definition ssh_send_banner ::
  "string \<Rightarrow> string \<Rightarrow> bool \<Rightarrow> session \<Rightarrow> int \<Rightarrow> ssh_rc \<times> session" where
  "ssh_send_banner CLIENTBANNER1 CLIENTBANNER2 write_ok s srv =
     (let banner0 = (if version s = 1 then CLIENTBANNER1 else CLIENTBANNER2);
          banner = (case xbanner s of Some x \<Rightarrow> x | None \<Rightarrow> banner0);
          s1 = (if srv \<noteq> 0 then s\<lparr>serverbanner := Some banner\<rparr>
                else s\<lparr>clientbanner := Some banner\<rparr>);
          buffer = take 127 (banner @ [NL])
      in case ssh_socket_write write_ok buffer s1 of
           (r, s2) \<Rightarrow> if r = SSH_ERROR then (SSH_ERROR, s2) else (SSH_OK, s2))"

subsection \<open>dh_handshake\<close>

text \<open>
  What the Diffie-Hellman helpers and the buffer deliver during one call. The four
  enumerators of the sub-state exhaust its type, so the \<open>default\<close> label of the
  \<open>switch\<close> has no value that reaches it.
\<close>

record dh_ext =
  dh_add_u8_ok :: bool
  dh_generate_x_r :: int
  dh_generate_e_r :: int
  dh_get_e_r :: "string option"
  dh_add_string_ok :: bool
  dh_send_ok :: bool

definition dh_handshake :: "dh_ext \<Rightarrow> session \<Rightarrow> ssh_rc \<times> session" where
  "dh_handshake x s =
     (case dh_handshake_state s of
        DH_STATE_INIT \<Rightarrow>
          (case buffer_add_u8 (dh_add_u8_ok x) SSH2_MSG_KEXDH_INIT s of
             (r1, s1) \<Rightarrow>
               if r1 < 0 then (SSH_ERROR, s1)
               else if dh_generate_x_r x < 0 then (SSH_ERROR, s1)
               else if dh_generate_e_r x < 0 then (SSH_ERROR, s1)
               else (case dh_get_e_r x of
                       None \<Rightarrow> (SSH_ERROR, s1)
                     | Some e \<Rightarrow>
                         (case buffer_add_ssh_string (dh_add_string_ok x) e s1 of
                            (r2, s2) \<Rightarrow>
                              if r2 < 0 then (SSH_ERROR, s2)
                              else (case packet_send (dh_send_ok x) s2 of
                                      (rc, s3) \<Rightarrow>
                                        if rc = SSH_ERROR then (rc, s3)
                                        else (SSH_AGAIN,
                                              s3\<lparr>dh_handshake_state := DH_STATE_INIT_SENT\<rparr>)))))
      | DH_STATE_INIT_SENT \<Rightarrow> (SSH_AGAIN, s)
      | DH_STATE_NEWKEYS_SENT \<Rightarrow> (SSH_AGAIN, s)
      | DH_STATE_FINISHED \<Rightarrow> (SSH_OK, s))"

subsection \<open>ssh_client_connection_callback\<close>

text \<open>
  What the rest of the library delivers during one call of the connection callback:
  \<open>ssh_analyze_banner\<close> (its return code and the two flags it writes),
  \<open>ssh_get_kex1\<close>, \<open>set_kex\<close>, \<open>ssh_send_kex\<close> and the helpers of
  \<open>dh_handshake\<close>. \<open>WITH_SSH1\<close> is the build option. The status callback
  (\<open>set_status\<close>), the log and \<open>ssh_list_kex\<close> leave the session as it is.
\<close>

record conn_ext =
  WITH_SSH1 :: bool
  conn_CLIENTBANNER1 :: string
  conn_CLIENTBANNER2 :: string
  analyze_banner_r :: "int \<times> int \<times> int"
  send_banner_ok :: bool
  get_kex1_r :: int
  set_kex_r :: int
  send_kex_r :: int
  kexinit_payload :: "wire_field list"
  conn_dh :: dh_ext

text \<open>
  Modelled from the spec: \<open>ssh_send_kex\<close> (\<open>kex.c\<close>) sends this side's
  key-exchange-init list.
\<close>

definition ssh_send_kex :: "int \<Rightarrow> wire_field list \<Rightarrow> session \<Rightarrow> int \<times> session" where
  "ssh_send_kex r payload s =
     (if r < 0 then (r, s)
      else (r, s\<lparr>socket_out := socket_out s @ [Packet (U8 SSH2_MSG_KEXINIT # payload)]\<rparr>))"

text \<open>The statements after the label \<open>error\<close>.\<close>

definition connection_error :: "session \<Rightarrow> session" where
  "connection_error s =
     (let s1 = ssh_socket_close s;
          s2 = s1\<lparr>alive := 0\<rparr>
      in s2\<lparr>session_state := SSH_SESSION_STATE_ERROR\<rparr>)"

text \<open>The rest of the \<open>BANNER_RECEIVED\<close> label once the version is chosen.\<close>

definition banner_received_tail :: "conn_ext \<Rightarrow> session \<Rightarrow> session" where
  "banner_received_tail x s =
     (let s1 = (if version s = 2 then s\<lparr>socket_data_callback := Ssh_packet_socket_callback\<rparr>
                else if WITH_SSH1 x then s\<lparr>socket_data_callback := Ssh_packet_socket_callback1\<rparr>
                else s);
          s2 = s1\<lparr>session_state := SSH_SESSION_STATE_INITIAL_KEX\<rparr>
      in snd (ssh_send_banner (conn_CLIENTBANNER1 x) (conn_CLIENTBANNER2 x) (send_banner_ok x) s2 0))"

definition case_BANNER_RECEIVED :: "conn_ext \<Rightarrow> session \<Rightarrow> session" where
  "case_BANNER_RECEIVED x s =
     (if serverbanner s = None then connection_error s
      else (case analyze_banner_r x of
              (rc, ssh1_found, ssh2_found) \<Rightarrow>
                if rc < 0 then connection_error s
                else if ssh2_found \<noteq> 0 \<and> ssh2 s \<noteq> 0 then
                  banner_received_tail x (s\<lparr>version := 2\<rparr>)
                else if WITH_SSH1 x \<and> ssh1_found \<noteq> 0 \<and> ssh1 s \<noteq> 0 then
                  banner_received_tail x (s\<lparr>version := 1\<rparr>)
                else if ssh1_found \<noteq> 0 \<and> ssh1 s = 0 then
                  connection_error
                    (ssh_set_error SSH_FATAL
                       (if WITH_SSH1 x
                        then ''SSH-1 protocol not available (configure session to allow SSH-1)''
                        else ''SSH-1 protocol not available (libssh compiled without SSH-1 support)'')
                       s)
                else
                  connection_error
                    (ssh_set_error SSH_FATAL ''No version of SSH protocol usable (banner: %s)'' s)))"

definition case_INITIAL_KEX :: "conn_ext \<Rightarrow> session \<Rightarrow> session" where
  "case_INITIAL_KEX x s =
     (if WITH_SSH1 x \<and> version s = 1 then
        (if get_kex1_r x < 0 then connection_error s else s\<lparr>connected := 1\<rparr>)
      else s)"

definition case_DH :: "session \<Rightarrow> session" where
  "case_DH s =
     (if dh_handshake_state s = DH_STATE_FINISHED then
        (let s1 = s\<lparr>connected := 1\<rparr>
         in s1\<lparr>session_state := SSH_SESSION_STATE_AUTHENTICATING\<rparr>)
      else s)"

text \<open>The label \<open>KEXINIT_RECEIVED\<close> has no \<open>break\<close> and runs on into \<open>DH\<close>.\<close>

definition case_KEXINIT_RECEIVED :: "conn_ext \<Rightarrow> session \<Rightarrow> session" where
  "case_KEXINIT_RECEIVED x s =
     (if set_kex_r x < 0 then connection_error s
      else (case ssh_send_kex (send_kex_r x) (kexinit_payload x) s of
              (r, s1) \<Rightarrow>
                if r < 0 then connection_error s1
                else (let s2 = s1\<lparr>session_state := SSH_SESSION_STATE_DH\<rparr>
                      in case dh_handshake (conn_dh x) s2 of
                           (rc, s3) \<Rightarrow>
                             if rc = SSH_ERROR then connection_error s3 else case_DH s3)))"

definition ssh_client_connection_callback :: "conn_ext \<Rightarrow> session \<Rightarrow> session" where
  "ssh_client_connection_callback x s =
     (case session_state s of
        SSH_SESSION_STATE_NONE \<Rightarrow> s
      | SSH_SESSION_STATE_CONNECTING \<Rightarrow> s
      | SSH_SESSION_STATE_SOCKET_CONNECTED \<Rightarrow> s
      | SSH_SESSION_STATE_BANNER_RECEIVED \<Rightarrow> case_BANNER_RECEIVED x s
      | SSH_SESSION_STATE_INITIAL_KEX \<Rightarrow> case_INITIAL_KEX x s
      | SSH_SESSION_STATE_KEXINIT_RECEIVED \<Rightarrow> case_KEXINIT_RECEIVED x s
      | SSH_SESSION_STATE_DH \<Rightarrow> case_DH s
      | SSH_SESSION_STATE_AUTHENTICATING \<Rightarrow> s
      | SSH_SESSION_STATE_ERROR \<Rightarrow> connection_error s
      | _ \<Rightarrow> ssh_set_error SSH_FATAL ''Invalid state %d'' s)"

subsection \<open>ssh_packet_dh_reply\<close>

text \<open>
  Both packet handlers return \<open>SSH_PACKET_USED\<close> on every path; the model returns the
  session. The statements after the label \<open>error\<close> are the same in both.
\<close>

definition packet_error :: "session \<Rightarrow> session" where
  "packet_error s = s\<lparr>session_state := SSH_SESSION_STATE_ERROR\<rparr>"

record dh_reply_ext =
  dh_import_f_r :: int
  dh_build_k_r :: int
  reply_add_u8_ok :: bool
  reply_send_ok :: bool

definition ssh_packet_dh_reply :: "dh_reply_ext \<Rightarrow> wire_field list \<Rightarrow> session \<Rightarrow> session" where
  "ssh_packet_dh_reply x packet s =
     (if session_state s \<noteq> SSH_SESSION_STATE_DH \<and> dh_handshake_state s \<noteq> DH_STATE_INIT_SENT then
        packet_error
          (ssh_set_error SSH_FATAL ''ssh_packet_dh_reply called in wrong state : %d:%d'' s)
      else (case buffer_get_ssh_string packet of
              (None, p1) \<Rightarrow> packet_error (ssh_set_error SSH_FATAL ''No public key in packet'' s)
            | (Some pubkey, p1) \<Rightarrow>
                (case buffer_get_ssh_string p1 of
                   (None, p2) \<Rightarrow> packet_error (ssh_set_error SSH_FATAL ''No F number in packet'' s)
                 | (Some f, p2) \<Rightarrow>
                     if dh_import_f_r x < 0 then
                       packet_error (ssh_set_error SSH_FATAL ''Cannot import f number'' s)
                     else (case buffer_get_ssh_string p2 of
                             (None, p3) \<Rightarrow>
                               packet_error (ssh_set_error SSH_FATAL ''No signature in packet'' s)
                           | (Some signature, p3) \<Rightarrow>
                               (let s1 = s\<lparr>dh_server_signature := Some signature\<rparr>
                                in if dh_build_k_r x < 0 then
                                     packet_error (ssh_set_error SSH_FATAL ''Cannot build k number'' s1)
                                   else (case buffer_add_u8 (reply_add_u8_ok x) SSH2_MSG_NEWKEYS s1 of
                                           (r, s2) \<Rightarrow>
                                             if r < 0 then packet_error s2
                                             else (let s3 = snd (packet_send (reply_send_ok x) s2)
                                                   in s3\<lparr>dh_handshake_state := DH_STATE_NEWKEYS_SENT\<rparr>)))))))"

subsection \<open>ssh_packet_newkeys\<close>

text \<open>
  What the key-derivation helpers deliver during one call: \<open>make_sessionid\<close>,
  \<open>crypt_set_algorithms\<close>, \<open>generate_session_keys\<close>, \<open>signature_verify\<close>, and
  the pointer \<open>crypto_new\<close> hands back. They work on the contents of the contexts, not
  on the session's two pointers.
\<close>

record newkeys_ext =
  make_sessionid_r :: ssh_rc
  crypt_set_algorithms_r :: int
  generate_session_keys_r :: int
  signature_verify_r :: int
  crypto_new_r :: "nat option"

text \<open>Modelled from the spec: \<open>ssh_set_error_oom\<close> records an out-of-memory error.\<close>

definition ssh_set_error_oom :: "session \<Rightarrow> session" where
  "ssh_set_error_oom s = ssh_set_error SSH_FATAL ''Out of memory'' s"

text \<open>The last two statements of the handler, reached by the server and the client branch.\<close>

definition newkeys_finish :: "(session \<Rightarrow> session) \<Rightarrow> session \<Rightarrow> session" where
  "newkeys_finish cb s = cb (s\<lparr>dh_handshake_state := DH_STATE_FINISHED\<rparr>)"

definition ssh_packet_newkeys ::
  "(session \<Rightarrow> session) \<Rightarrow> newkeys_ext \<Rightarrow> session \<Rightarrow> session" where
  "ssh_packet_newkeys cb x s =
     (if session_state s \<noteq> SSH_SESSION_STATE_DH \<and> dh_handshake_state s \<noteq> DH_STATE_NEWKEYS_SENT then
        packet_error
          (ssh_set_error SSH_FATAL ''ssh_packet_newkeys called in wrong state : %d:%d'' s)
      else if server s \<noteq> 0 then
        newkeys_finish cb (s\<lparr>dh_handshake_state := DH_STATE_FINISHED\<rparr>)
      else if make_sessionid_r x \<noteq> SSH_OK then packet_error s
      else if crypt_set_algorithms_r x \<noteq> 0 then packet_error s
      else if generate_session_keys_r x < 0 then packet_error s
      else (let s1 = s\<lparr>dh_server_signature := None\<rparr>
            in if signature_verify_r x \<noteq> 0 then packet_error s1
               else (let s2 = (if current_crypto s1 \<noteq> None then s1\<lparr>current_crypto := None\<rparr>
                               else s1);
                         s3 = s2\<lparr>current_crypto := next_crypto s2\<rparr>;
                         s4 = s3\<lparr>next_crypto := crypto_new_r x\<rparr>
                     in if next_crypto s4 = None then packet_error (ssh_set_error_oom s4)
                        else newkeys_finish cb s4)))"

subsection \<open>ssh_packet_service_accept and ssh_service_request\<close>

definition ssh_packet_service_accept :: "session \<Rightarrow> session" where
  "ssh_packet_service_accept s = s\<lparr>auth_service_state := SSH_AUTH_SERVICE_ACCEPTED\<rparr>"

record service_ext =
  sr_add_u8_ok :: bool
  sr_string_from_char_ok :: bool
  sr_add_string_ok :: bool
  sr_send_ok :: bool

definition ssh_service_request :: "service_ext \<Rightarrow> session \<Rightarrow> string \<Rightarrow> ssh_rc \<times> session" where
  "ssh_service_request x s service =
     (case auth_service_state s of
        SSH_AUTH_SERVICE_NONE \<Rightarrow>
          (case buffer_add_u8 (sr_add_u8_ok x) SSH2_MSG_SERVICE_REQUEST s of
             (r1, s1) \<Rightarrow>
               if r1 < 0 then (SSH_ERROR, s1)
               else if \<not> sr_string_from_char_ok x then (SSH_ERROR, s1)
               else (case buffer_add_ssh_string (sr_add_string_ok x) service s1 of
                       (r2, s2) \<Rightarrow>
                         if r2 < 0 then (SSH_ERROR, s2)
                         else (case packet_send (sr_send_ok x) s2 of
                                 (r3, s3) \<Rightarrow>
                                   if r3 = SSH_ERROR then
                                     (SSH_ERROR,
                                      ssh_set_error SSH_FATAL
                                        ''Sending SSH2_MSG_SERVICE_REQUEST failed.'' s3)
                                   else (SSH_AGAIN,
                                         s3\<lparr>auth_service_state := SSH_AUTH_SERVICE_SENT\<rparr>))))
      | SSH_AUTH_SERVICE_DENIED \<Rightarrow>
          (SSH_ERROR, ssh_set_error SSH_FATAL ''ssh_auth_service request denied'' s)
      | SSH_AUTH_SERVICE_ACCEPTED \<Rightarrow> (SSH_OK, s)
      | SSH_AUTH_SERVICE_SENT \<Rightarrow> (SSH_AGAIN, s)
      | SSH_AUTH_SERVICE_USER_SENT \<Rightarrow> (SSH_ERROR, s))"

subsection \<open>ssh_connect\<close>

definition ssh_connect_termination :: "session \<Rightarrow> bool" where
  "ssh_connect_termination s =
     (case session_state s of
        SSH_SESSION_STATE_ERROR \<Rightarrow> True
      | SSH_SESSION_STATE_AUTHENTICATING \<Rightarrow> True
      | SSH_SESSION_STATE_DISCONNECTED \<Rightarrow> True
      | _ \<Rightarrow> False)"

text \<open>
  What the rest of the library delivers during one call of \<open>ssh_connect\<close>: the return
  code of \<open>ssh_init\<close> and of the socket's connect call, the helpers of
  \<open>ssh_options_apply\<close> (\<open>ssh_path_expand_tilde\<close>, \<open>ssh_get_local_username\<close>
  and \<open>ssh_path_expand_escape\<close>, each of which may hand back \<open>NULL\<close>), and
  \<open>ssh_handle_packets_termination\<close>, the pump: given the session and the timeout in
  milliseconds it hands back the session as the callbacks left it when it stopped.
  \<open>WIN32\<close> is the build target. \<open>ssh_is_blocking\<close> reads the session's blocking flag.
\<close>

record connect_ext =
  WIN32 :: bool
  ssh_init_r :: int
  path_expand_tilde :: "string \<Rightarrow> string option"
  get_local_username :: "string option"
  path_expand_escape :: "session \<Rightarrow> string \<Rightarrow> string option"
  socket_connect_proxycommand_r :: ssh_rc
  socket_connect_r :: ssh_rc
  handle_packets_termination :: "session \<Rightarrow> int \<Rightarrow> session"

text \<open>
  \<open>ssh_options_apply\<close> (\<open>options.c\<close>) and the two cases of \<open>ssh_options_set\<close>
  it calls with the value \<open>NULL\<close>.
\<close>

definition ssh_options_set_SSH_DIR :: "connect_ext \<Rightarrow> session \<Rightarrow> int \<times> session" where
  "ssh_options_set_SSH_DIR x s =
     (let s1 = s\<lparr>sshdir := None\<rparr>;
          s2 = s1\<lparr>sshdir := path_expand_tilde x ''~/.ssh''\<rparr>
      in if sshdir s2 = None then (-1, s2) else (0, s2))"

definition ssh_options_set_USER :: "connect_ext \<Rightarrow> session \<Rightarrow> int \<times> session" where
  "ssh_options_set_USER x s =
     (let s1 = s\<lparr>username := None\<rparr>
      in case get_local_username x of
           None \<Rightarrow> (-1, s1)
         | Some q \<Rightarrow> (0, s1\<lparr>username := Some q\<rparr>))"

text \<open>
  The loop over the identity list: each entry is replaced in place by its expansion;
  \<open>expanded\<close> are the entries already replaced.
\<close>

fun expand_identities ::
  "connect_ext \<Rightarrow> string list \<Rightarrow> string list \<Rightarrow> session \<Rightarrow> int \<times> session" where
  "expand_identities x expanded [] s = (0, s)"
| "expand_identities x expanded (ident # rest) s =
     (case path_expand_escape x s ident of
        None \<Rightarrow> (-1, s)
      | Some tmp \<Rightarrow>
          expand_identities x (expanded @ [tmp]) rest
            (s\<lparr>identity := expanded @ tmp # rest\<rparr>))"

definition ssh_options_apply :: "connect_ext \<Rightarrow> session \<Rightarrow> int \<times> session" where
  "ssh_options_apply x s =
     (case (if sshdir s = None then ssh_options_set_SSH_DIR x s else (0, s)) of
        (rc1, s1) \<Rightarrow>
          if rc1 < 0 then (-1, s1)
          else (case (if username s1 = None then ssh_options_set_USER x s1 else (0, s1)) of
                  (rc2, s2) \<Rightarrow>
                    if rc2 < 0 then (-1, s2)
                    else (case (case knownhosts s2 of
                                  None \<Rightarrow> path_expand_escape x s2 ''%d/known_hosts''
                                | Some k \<Rightarrow> path_expand_escape x s2 k) of
                            None \<Rightarrow> (-1, s2)
                          | Some tmp \<Rightarrow>
                              (let s3 = s2\<lparr>knownhosts := Some tmp\<rparr>
                               in case ProxyCommand s3 of
                                    None \<Rightarrow> expand_identities x [] (identity s3) s3
                                  | Some pc \<Rightarrow>
                                      (case path_expand_escape x s3 pc of
                                         None \<Rightarrow> (-1, s3)
                                       | Some tmp2 \<Rightarrow>
                                           (let s4 = s3\<lparr>ProxyCommand := Some tmp2\<rparr>
                                            in expand_identities x [] (identity s4) s4))))))"

text \<open>C's integer division truncates towards zero.\<close>

definition c_div :: "int \<Rightarrow> int \<Rightarrow> int" where
  "c_div a b = sgn a * sgn b * (\<bar>a\<bar> div \<bar>b\<bar>)"

text \<open>
  A C \<open>int\<close> has 32 bits. The timeouts are computed from \<open>long\<close> values and stored
  in an \<open>int\<close>: what is stored is the value modulo \<open>2^32\<close>, between \<open>-2^31\<close> and
  \<open>2^31 - 1\<close>.
\<close>

definition int32 :: "int \<Rightarrow> int" where
  "int32 v = (v + 2147483648) mod 4294967296 - 2147483648"

text \<open>The local variable \<open>timeout\<close> of the blocking branch, in milliseconds.\<close>

definition connect_timeout_ms :: "session \<Rightarrow> int" where
  "connect_timeout_ms s =
     (let timeout0 = int32 ((timeout s * 1000) + c_div (timeout_usec s) 1000)
      in if timeout0 = 0 then 10 * 1000 else timeout0)"

text \<open>From the label \<open>pending\<close> to the end of the function.\<close>

definition connect_pending :: "connect_ext \<Rightarrow> session \<Rightarrow> ssh_rc \<times> session" where
  "connect_pending x s =
     (let s1 = s\<lparr>pending_call_state := SSH_PENDING_CALL_CONNECT\<rparr>;
          s2 = (if blocking s1 then
                  (let s' = handle_packets_termination x s1 (connect_timeout_ms s1)
                   in if \<not> ssh_connect_termination s' then
                        (ssh_set_error SSH_FATAL ''Timeout connecting to %s'' s')
                          \<lparr>session_state := SSH_SESSION_STATE_ERROR\<rparr>
                      else s')
                else handle_packets_termination x s1 0)
      in if \<not> blocking s2 \<and> \<not> ssh_connect_termination s2 then (SSH_AGAIN, s2)
         else (let s3 = s2\<lparr>pending_call_state := SSH_PENDING_CALL_NONE\<rparr>
               in if session_state s3 = SSH_SESSION_STATE_ERROR
                     \<or> session_state s3 = SSH_SESSION_STATE_DISCONNECTED
                  then (SSH_ERROR, s3) else (SSH_OK, s3)))"

text \<open>
  From the end of the \<open>switch\<close> on the pending call to the label \<open>pending\<close>:
  \<open>Inl\<close> is a \<open>return\<close> on the way, \<open>Inr\<close> the session with which the label
  is reached. Installing the connection callback and the socket callbacks is the
  assignment of \<open>socket_data_callback\<close>; the connection callback is the one of this file.
\<close>

definition connect_start :: "connect_ext \<Rightarrow> session \<Rightarrow> (ssh_rc \<times> session) + session" where
  "connect_start x s =
     (let s1 = s\<lparr>alive := 0\<rparr>;
          s2 = s1\<lparr>client := 1\<rparr>
      in if ssh_init_r x < 0 then Inl (SSH_ERROR, s2)
         else if fd s2 = None \<and> host s2 = None \<and> ProxyCommand s2 = None then
           Inl (SSH_ERROR, ssh_set_error SSH_FATAL ''Hostname required'' s2)
         else (case ssh_options_apply x s2 of
                 (ret0, s3) \<Rightarrow>
                   if ret0 < 0 then
                     Inl (SSH_ERROR, ssh_set_error SSH_FATAL ''Couldn't apply options'' s3)
                   else (let s4 = s3\<lparr>session_state := SSH_SESSION_STATE_CONNECTING\<rparr>;
                             s5 = s4\<lparr>socket_data_callback := Callback_receive_banner\<rparr>;
                             ret = (if fd s5 \<noteq> None then SSH_OK
                                    else if \<not> WIN32 x \<and> ProxyCommand s5 \<noteq> None
                                      then socket_connect_proxycommand_r x
                                    else socket_connect_r x)
                         in if ret = SSH_ERROR then Inl (SSH_ERROR, s5)
                            else Inr (s5\<lparr>alive := 1\<rparr>))))"

text \<open>\<open>ssh_connect\<close>. The session pointer may be \<open>NULL\<close>.\<close>

definition ssh_connect :: "connect_ext \<Rightarrow> session option \<Rightarrow> ssh_rc \<times> session option" where
  "ssh_connect x sp =
     (case sp of
        None \<Rightarrow> (SSH_ERROR, None)
      | Some s \<Rightarrow>
          (case pending_call_state s of
             SSH_PENDING_CALL_CONNECT \<Rightarrow> map_prod id Some (connect_pending x s)
           | SSH_PENDING_CALL_OTHER n \<Rightarrow>
               (SSH_ERROR,
                Some (ssh_set_error SSH_FATAL ''Bad call during pending SSH call in ssh_connect'' s))
           | SSH_PENDING_CALL_NONE \<Rightarrow>
               (case connect_start x s of
                  Inl r \<Rightarrow> map_prod id Some r
                | Inr s' \<Rightarrow> map_prod id Some (connect_pending x s'))))"

section \<open>libssh: \<open>connect.c\<close> and the channel poll of \<open>channels.c\<close>\<close>

subsection \<open>ssh_connect_ai_timeout\<close>

text \<open>
  What the function does to the descriptor \<open>s\<close>, in order. The outcome of
  \<open>ssh_poll\<close> and the error code \<open>getsockopt\<close> reads are given. The timeout
  handed to \<open>ssh_poll\<close> is the \<open>int\<close> variable \<open>timeout_ms\<close>.
\<close>

datatype sock_action =
    Set_nonblocking int
  | Connect int
  | Poll int int
  | Close int
  | Set_blocking int

record ai_ext =
  poll_r :: int
  so_error :: int

definition ssh_connect_ai_timeout ::
  "ai_ext \<Rightarrow> session \<Rightarrow> int \<Rightarrow> int \<Rightarrow> int \<Rightarrow> int \<times> session \<times> sock_action list" where
  "ssh_connect_ai_timeout x sess tmo usec s =
     (let timeout_ms = int32 (tmo * 1000 + c_div usec 1000);
          acts = [Set_nonblocking s, Connect s, Poll s timeout_ms];
          rc = poll_r x
      in if rc = 0 then
           (-1, ssh_set_error SSH_FATAL ''Timeout while connecting to %s:%d'' sess, acts @ [Close s])
         else if rc < 0 then
           (-1, ssh_set_error SSH_FATAL ''poll error: %s'' sess, acts @ [Close s])
         else (let rc1 = so_error x
               in if rc1 \<noteq> 0 then
                    (-1, ssh_set_error SSH_FATAL ''Connect to %s:%d failed: %s'' sess,
                     acts @ [Close s])
                  else (s, sess, acts @ [Set_blocking s])))"

subsection \<open>ssh_channel_poll\<close>

text \<open>
  Channels and sessions are reached through pointers, and several channels may share a
  session, so both live in a store indexed by address.
\<close>

record chan =
  chan_session :: nat
  stdout_buffer :: string
  stderr_buffer :: string
  remote_eof :: int

record world =
  chan_heap :: "nat \<Rightarrow> chan"
  session_heap :: "nat \<Rightarrow> session"





subsection \<open>ssh_select\<close>












section \<open>The client's handshake as a run of events\<close>

text \<open>
  One event is one entry into the client code from the socket or packet layer: the socket
  reports the connection attempt, bytes arrive while the banner callback is installed, a
  \<open>KEXDH_REPLY\<close>, \<open>NEWKEYS\<close> or \<open>SERVICE_ACCEPT\<close> packet is dispatched, or the
  connection callback is invoked for a step. Each carries what the rest of the library
  delivers during that entry.
\<close>

datatype event =
    Ev_socket_connected bool conn_ext
  | Ev_banner_data string conn_ext
  | Ev_connection_callback conn_ext
  | Ev_KEXDH_REPLY dh_reply_ext "wire_field list"
  | Ev_NEWKEYS newkeys_ext conn_ext
  | Ev_SERVICE_ACCEPT

fun step :: "event \<Rightarrow> session \<Rightarrow> session" where
  "step (Ev_socket_connected ok cx) s =
     socket_callback_connected (ssh_client_connection_callback cx) ok s"
| "step (Ev_banner_data bytes cx) s =
     snd (snd (callback_receive_banner (ssh_client_connection_callback cx) bytes s))"
| "step (Ev_connection_callback cx) s = ssh_client_connection_callback cx s"
| "step (Ev_KEXDH_REPLY rx packet) s = ssh_packet_dh_reply rx packet s"
| "step (Ev_NEWKEYS nx cx) s = ssh_packet_newkeys (ssh_client_connection_callback cx) nx s"
| "step Ev_SERVICE_ACCEPT s = ssh_packet_service_accept s"

fun run :: "event list \<Rightarrow> session \<Rightarrow> session" where
  "run [] s = s"
| "run (e # es) s = run es (step e s)"

fun is_NEWKEYS :: "event \<Rightarrow> bool" where
  "is_NEWKEYS (Ev_NEWKEYS nx cx) = True"
| "is_NEWKEYS _ = False"

section \<open>Failure of a connection step\<close>

text \<open>
  The failures the connection callback tests for, by the state it is entered in: no
  banner or a banner that cannot be analysed, no protocol version both sides allow, the
  SSH-1 key exchange failing, no agreement on the key-exchange algorithms (\<open>set_kex\<close>),
  the own list not sent, an error of the Diffie-Hellman handshake, and the state
  \<open>ERROR\<close> itself.
\<close>

definition connection_step_fails :: "conn_ext \<Rightarrow> session \<Rightarrow> bool" where
  "connection_step_fails x s =
     (case session_state s of
        SSH_SESSION_STATE_BANNER_RECEIVED \<Rightarrow>
          serverbanner s = None
          \<or> fst (analyze_banner_r x) < 0
          \<or> (\<not> (snd (snd (analyze_banner_r x)) \<noteq> 0 \<and> ssh2 s \<noteq> 0)
              \<and> \<not> (WITH_SSH1 x \<and> fst (snd (analyze_banner_r x)) \<noteq> 0 \<and> ssh1 s \<noteq> 0))
      | SSH_SESSION_STATE_INITIAL_KEX \<Rightarrow> WITH_SSH1 x \<and> version s = 1 \<and> get_kex1_r x < 0
      | SSH_SESSION_STATE_KEXINIT_RECEIVED \<Rightarrow>
          set_kex_r x < 0 \<or> send_kex_r x < 0 \<or> fst (dh_handshake (conn_dh x) s) = SSH_ERROR
      | SSH_SESSION_STATE_ERROR \<Rightarrow> True
      | _ \<Rightarrow> False)"

section \<open>Channels with buffered data\<close>


text \<open>
  \<open>ssh_handle_packets\<close>, which a poll runs when the polled buffer is empty, is not
  part of the files at hand. Two things it may be known to do. It keeps what is there
  (\<open>pump_keeps\<close>): every channel stays with its session, a buffer that holds bytes still
  holds some afterwards, and a session that is alive stays alive. Or it finds nothing to
  do and leaves the store as it is (\<open>pump_idle\<close>).
\<close>

definition keeps :: "world \<Rightarrow> world \<Rightarrow> bool" where
  "keeps w w' =
     ((\<forall>c. chan_session (chan_heap w' c) = chan_session (chan_heap w c)
           \<and> (stdout_buffer (chan_heap w c) \<noteq> [] \<longrightarrow> stdout_buffer (chan_heap w' c) \<noteq> [])
           \<and> (stderr_buffer (chan_heap w c) \<noteq> [] \<longrightarrow> stderr_buffer (chan_heap w' c) \<noteq> []))
      \<and> (\<forall>q. alive (session_heap w q) \<noteq> 0 \<longrightarrow> alive (session_heap w' q) \<noteq> 0))"



section \<open>Example inputs\<close>

text \<open>
  A client session as it is before \<open>ssh_connect\<close>, and environments in which every
  helper succeeds. The examples below are built from them.
\<close>

definition example_session :: session where
  "example_session =
     \<lparr>session_state = SSH_SESSION_STATE_NONE, dh_handshake_state = DH_STATE_INIT,
      auth_service_state = SSH_AUTH_SERVICE_NONE, pending_call_state = SSH_PENDING_CALL_NONE,
      serverbanner = None, clientbanner = None, xbanner = None, version = 0, ssh1 = 0, ssh2 = 1,
      server = 0, client = 0, connected = 0, alive = 0, current_crypto = None,
      next_crypto = Some 1, dh_server_signature = None, out_buffer = [], socket_open = True,
      socket_out = [], socket_data_callback = No_data_callback, error_code = SSH_NO_ERROR,
      error_buffer = [], fd = None, host = Some ''example.org'', ProxyCommand = None,
      timeout = 0, timeout_usec = 0, blocking = True, sshdir = None, username = None,
      knownhosts = None, identity = [''%d/id_rsa'']\<rparr>"

definition dh_ok :: dh_ext where
  "dh_ok = \<lparr>dh_add_u8_ok = True, dh_generate_x_r = 0, dh_generate_e_r = 0,
            dh_get_e_r = Some ''e'', dh_add_string_ok = True, dh_send_ok = True\<rparr>"

definition conn_ok :: conn_ext where
  "conn_ok = \<lparr>WITH_SSH1 = False, conn_CLIENTBANNER1 = ''SSH-1.5-libssh'',
              conn_CLIENTBANNER2 = ''SSH-2.0-libssh'', analyze_banner_r = (0, 0, 1),
              send_banner_ok = True, get_kex1_r = 0, set_kex_r = 0, send_kex_r = 0,
              kexinit_payload = [], conn_dh = dh_ok\<rparr>"

definition dh_reply_ok :: dh_reply_ext where
  "dh_reply_ok = \<lparr>dh_import_f_r = 0, dh_build_k_r = 0, reply_add_u8_ok = True,
                  reply_send_ok = True\<rparr>"

definition newkeys_ok :: newkeys_ext where
  "newkeys_ok = \<lparr>make_sessionid_r = SSH_OK, crypt_set_algorithms_r = 0,
                 generate_session_keys_r = 0, signature_verify_r = 0, crypto_new_r = Some 2\<rparr>"

definition service_ok :: service_ext where
  "service_ok = \<lparr>sr_add_u8_ok = True, sr_string_from_char_ok = True, sr_add_string_ok = True,
                 sr_send_ok = True\<rparr>"

text \<open>
  An environment of \<open>ssh_connect\<close> in which every call succeeds and the pump makes no
  progress (no callback fires before it stops).
\<close>

definition connect_idle :: connect_ext where
  "connect_idle = \<lparr>WIN32 = False, ssh_init_r = 0, path_expand_tilde = (\<lambda>p. Some p),
                    get_local_username = Some ''user'',
                    path_expand_escape = (\<lambda>s p. Some p),
                    socket_connect_proxycommand_r = SSH_OK, socket_connect_r = SSH_OK,
                    handle_packets_termination = (\<lambda>s t. s)\<rparr>"

text \<open>
  The same, but the handshake completes when the pump is given twenty seconds or more.
\<close>

definition connect_slow :: connect_ext where
  "connect_slow =
     connect_idle\<lparr>handle_packets_termination :=
       (\<lambda>s t. if 20000 \<le> t then s\<lparr>session_state := SSH_SESSION_STATE_AUTHENTICATING\<rparr>
               else s)\<rparr>"







section \<open>Properties of SSHTerminal\<close>

lemma write_guard_Some: "write_guard (Some c) = Inr False"
  by (simp add: write_guard_def)

lemma write_guard_None: "write_guard None = Inl NullDereference"
  by (simp add: write_guard_def deref_def)

text \<open>
  Claim C10. With the session connected and a non-null channel pointer, \<open>write\<close> hands
  the byte to \<open>Channel::write\<close> whatever \<open>isOpen\<close> and \<open>isEof\<close> say, because the
  leading null test makes the conjunction false before they are asked; with a null pointer
  the guard itself dereferences the null channel.
\<close>

theorem write_guard_only_null:
  "session_isConnected t \<Longrightarrow>
     (\<forall>c. m_channel t = Some c \<longrightarrow> write_term channel_write t k = Inr (channel_write c [k] 1))
   \<and> (m_channel t = None \<longrightarrow> write_term channel_write t k = Inl NullDereference)"
  by (auto simp: write_term_def write_guard_Some write_guard_None deref_def)

theorem write_guard_only_null_witness:
  "write_term (\<lambda>c bs n. int n) \<lparr>session_isConnected = True,
       m_channel = Some \<lparr>chan_isOpen = False, chan_isEof = True\<rparr>\<rparr> CHR ''a'' = Inr 1
   \<and> write_term (\<lambda>c bs n. int n) \<lparr>session_isConnected = True, m_channel = None\<rparr> CHR ''a''
       = Inl NullDereference"
proof -
  let ?t1 = "\<lparr>session_isConnected = True,
       m_channel = Some \<lparr>chan_isOpen = False, chan_isEof = True\<rparr>\<rparr>"
  let ?t2 = "\<lparr>session_isConnected = True, m_channel = None :: channel_obj option\<rparr>"
  have a: "session_isConnected ?t1" by simp
  have b: "session_isConnected ?t2" by simp
  show ?thesis
    using write_guard_only_null [OF a, of "\<lambda>c bs n. int n" "CHR ''a''"]
          write_guard_only_null [OF b, of "\<lambda>c bs n. int n" "CHR ''a''"]
    by simp
qed

text \<open>
  Claim C8. With the known-hosts file absent (\<open>SSH_SERVER_FILE_NOT_FOUND\<close>) control
  falls through into \<open>SSH_SERVER_NOT_KNOWN\<close>: the return code is 1 and \<open>stderr\<close>
  receives both texts, but the string handed back through \<open>error\<close> holds the
  "server is unknown" text alone, because the second label assigns where the first had
  stored the "could not find known host file" text.
\<close>

theorem verifyKnownHost_file_not_found:
  "verifyKnownHost error0 stderr0 (Some hash) 20 (\<lambda>h n. Some hexa)
       SSH_SERVER_FILE_NOT_FOUND session_error
     = Inr \<lparr>retCode = 1,
            error = ''The server is unknown.'' @ [NL] @ ''Public key hash is '' @ hexa @ [NL]
                    @ ''Do you trust the host key?'',
            stderr = stderr0
                    @ ''Could not find known host file. If you accept the host key here,'' @ [NL]
                    @ ''the file will be automatically created.'' @ [NL]
                    @ ''The server is unknown.'' @ [NL]
                    @ ''Public key hash is '' @ hexa @ [NL]
                    @ ''Do you trust the host key (yes/no)? ''\<rparr>"
  by (simp add: verifyKnownHost_def case_FILE_NOT_FOUND_def case_NOT_KNOWN_def fprintf_stderr_def)

section \<open>Properties of the client code\<close>

subsection \<open>The NEWKEYS handler\<close>

text \<open>
  Claim C3. In the client's \<open>NEWKEYS\<close> handler, when the verification of the server's
  signature fails, the session goes to \<open>ERROR\<close> and nothing else happens but the
  clearing of the stored signature: the two cryptographic contexts stay where they were,
  the Diffie-Hellman sub-state is not advanced, and the connection callback is not called.
\<close>

theorem newkeys_signature_failure:
  assumes "session_state s = SSH_SESSION_STATE_DH \<or> dh_handshake_state s = DH_STATE_NEWKEYS_SENT"
    and "server s = 0"
    and "make_sessionid_r x = SSH_OK"
    and "crypt_set_algorithms_r x = 0"
    and "0 \<le> generate_session_keys_r x"
    and "signature_verify_r x \<noteq> 0"
  shows "ssh_packet_newkeys cb x s
           = s\<lparr>dh_server_signature := None, session_state := SSH_SESSION_STATE_ERROR\<rparr>
       \<and> session_state (ssh_packet_newkeys cb x s) = SSH_SESSION_STATE_ERROR
       \<and> current_crypto (ssh_packet_newkeys cb x s) = current_crypto s
       \<and> next_crypto (ssh_packet_newkeys cb x s) = next_crypto s
       \<and> dh_handshake_state (ssh_packet_newkeys cb x s) = dh_handshake_state s"
  using assms by (auto simp: ssh_packet_newkeys_def packet_error_def)

theorem newkeys_signature_failure_witness:
  "session_state
     (ssh_packet_newkeys (ssh_client_connection_callback conn_ok)
        (newkeys_ok\<lparr>signature_verify_r := 1\<rparr>)
        (example_session\<lparr>session_state := SSH_SESSION_STATE_DH,
                         dh_handshake_state := DH_STATE_NEWKEYS_SENT\<rparr>))
     = SSH_SESSION_STATE_ERROR
   \<and> current_crypto
     (ssh_packet_newkeys (ssh_client_connection_callback conn_ok)
        (newkeys_ok\<lparr>signature_verify_r := 1\<rparr>)
        (example_session\<lparr>session_state := SSH_SESSION_STATE_DH,
                         dh_handshake_state := DH_STATE_NEWKEYS_SENT\<rparr>))
     = None
   \<and> dh_handshake_state
     (ssh_packet_newkeys (ssh_client_connection_callback conn_ok)
        (newkeys_ok\<lparr>signature_verify_r := 1\<rparr>)
        (example_session\<lparr>session_state := SSH_SESSION_STATE_DH,
                         dh_handshake_state := DH_STATE_NEWKEYS_SENT\<rparr>))
     = DH_STATE_NEWKEYS_SENT"
  using newkeys_signature_failure
          [of "example_session\<lparr>session_state := SSH_SESSION_STATE_DH,
                               dh_handshake_state := DH_STATE_NEWKEYS_SENT\<rparr>"
              "newkeys_ok\<lparr>signature_verify_r := 1\<rparr>"
              "ssh_client_connection_callback conn_ok"]
  by (simp add: example_session_def newkeys_ok_def)

subsection \<open>The service request\<close>

text \<open>
  Claim C7. At most one service request is in flight. From \<open>NONE\<close>, with the buffer
  and the send succeeding, \<open>ssh_service_request\<close> sends one packet, which ends with the
  \<open>SERVICE_REQUEST\<close> code and the service name, moves to \<open>SENT\<close> and answers
  \<open>SSH_AGAIN\<close>. In \<open>SENT\<close> it answers \<open>SSH_AGAIN\<close> and leaves the session as it
  is, so nothing more is sent. After the \<open>SERVICE_ACCEPT\<close> handler the state is
  \<open>ACCEPTED\<close> and the answer is \<open>SSH_OK\<close>. In \<open>DENIED\<close> the answer is
  \<open>SSH_ERROR\<close> with a fatal error, and again nothing is sent.
\<close>

theorem service_request_single_in_flight:
  "(auth_service_state s = SSH_AUTH_SERVICE_NONE \<and> sr_add_u8_ok x \<and> sr_string_from_char_ok x
      \<and> sr_add_string_ok x \<and> sr_send_ok x \<longrightarrow>
      ssh_service_request x s service =
        (SSH_AGAIN,
         s\<lparr>socket_out := socket_out s
              @ [Packet (out_buffer s @ [U8 SSH2_MSG_SERVICE_REQUEST, SSH_String service])],
           out_buffer := [], auth_service_state := SSH_AUTH_SERVICE_SENT\<rparr>))
   \<and> (auth_service_state s = SSH_AUTH_SERVICE_SENT \<longrightarrow>
        ssh_service_request x s service = (SSH_AGAIN, s))
   \<and> auth_service_state (ssh_packet_service_accept s) = SSH_AUTH_SERVICE_ACCEPTED
   \<and> ssh_service_request x (ssh_packet_service_accept s) service
        = (SSH_OK, ssh_packet_service_accept s)
   \<and> (auth_service_state s = SSH_AUTH_SERVICE_DENIED \<longrightarrow>
        ssh_service_request x s service
          = (SSH_ERROR, ssh_set_error SSH_FATAL ''ssh_auth_service request denied'' s)
        \<and> socket_out (snd (ssh_service_request x s service)) = socket_out s)"
  by (simp add: ssh_service_request_def ssh_packet_service_accept_def buffer_add_u8_def
      buffer_add_ssh_string_def packet_send_def ssh_set_error_def)

text \<open>
  The example: a first request, a second one while the first is pending, the accept, a
  third request; and a request in the state \<open>DENIED\<close>.
\<close>

theorem service_request_single_in_flight_witness:
  "fst (ssh_service_request service_ok example_session ''ssh-userauth'') = SSH_AGAIN
   \<and> socket_out (snd (ssh_service_request service_ok example_session ''ssh-userauth''))
       = [Packet [U8 SSH2_MSG_SERVICE_REQUEST, SSH_String ''ssh-userauth'']]
   \<and> ssh_service_request service_ok
         (snd (ssh_service_request service_ok example_session ''ssh-userauth'')) ''ssh-userauth''
       = (SSH_AGAIN, snd (ssh_service_request service_ok example_session ''ssh-userauth''))
   \<and> fst (ssh_service_request service_ok
             (ssh_packet_service_accept
                (snd (ssh_service_request service_ok example_session ''ssh-userauth'')))
             ''ssh-userauth'') = SSH_OK
   \<and> fst (ssh_service_request service_ok
             (example_session\<lparr>auth_service_state := SSH_AUTH_SERVICE_DENIED\<rparr>) ''ssh-userauth'')
       = SSH_ERROR"
  using service_request_single_in_flight [of example_session service_ok "''ssh-userauth''"]
        service_request_single_in_flight
          [of "snd (ssh_service_request service_ok example_session ''ssh-userauth'')"
              service_ok "''ssh-userauth''"]
        service_request_single_in_flight
          [of "example_session\<lparr>auth_service_state := SSH_AUTH_SERVICE_DENIED\<rparr>"
              service_ok "''ssh-userauth''"]
  by (simp add: example_session_def service_ok_def)

subsection \<open>The connection callback's error path\<close>

lemma connection_error_outcome:
  "socket_open (connection_error s) = False \<and> alive (connection_error s) = 0
   \<and> session_state (connection_error s) = SSH_SESSION_STATE_ERROR"
  by (simp add: connection_error_def ssh_socket_close_def)

lemma dh_handshake_rc_state:
  "dh_handshake_state s' = dh_handshake_state s \<Longrightarrow>
     fst (dh_handshake x s') = fst (dh_handshake x s)"
  by (simp add: dh_handshake_def buffer_add_u8_def buffer_add_ssh_string_def packet_send_def
      split: ssh_dh_state_e.splits option.splits)

lemma case_BANNER_RECEIVED_fails:
  assumes "serverbanner s = None
          \<or> fst (analyze_banner_r x) < 0
          \<or> (\<not> (snd (snd (analyze_banner_r x)) \<noteq> 0 \<and> ssh2 s \<noteq> 0)
              \<and> \<not> (WITH_SSH1 x \<and> fst (snd (analyze_banner_r x)) \<noteq> 0 \<and> ssh1 s \<noteq> 0))"
  shows "\<exists>s0. case_BANNER_RECEIVED x s = connection_error s0"
proof -
  obtain rc f1 f2 where a: "analyze_banner_r x = (rc, f1, f2)"
    by (cases "analyze_banner_r x") auto
  show ?thesis
    using assms unfolding case_BANNER_RECEIVED_def a
    by (simp only: prod.case fst_conv snd_conv) auto
qed

lemma case_KEXINIT_RECEIVED_fails:
  assumes "set_kex_r x < 0 \<or> send_kex_r x < 0 \<or> fst (dh_handshake (conn_dh x) s) = SSH_ERROR"
  shows "\<exists>s0. case_KEXINIT_RECEIVED x s = connection_error s0"
proof (cases "set_kex_r x < 0")
  case True
  then have "case_KEXINIT_RECEIVED x s = connection_error s"
    by (simp add: case_KEXINIT_RECEIVED_def)
  then show ?thesis ..
next
  case nk: False
  show ?thesis
  proof (cases "send_kex_r x < 0")
    case True
    with nk have "case_KEXINIT_RECEIVED x s = connection_error s"
      by (simp add: case_KEXINIT_RECEIVED_def ssh_send_kex_def)
    then show ?thesis ..
  next
    case False
    define s1 where "s1 = snd (ssh_send_kex (send_kex_r x) (kexinit_payload x) s)"
    define s2 where "s2 = s1\<lparr>session_state := SSH_SESSION_STATE_DH\<rparr>"
    have k: "ssh_send_kex (send_kex_r x) (kexinit_payload x) s = (send_kex_r x, s1)"
      by (simp add: s1_def ssh_send_kex_def)
    have "dh_handshake_state s2 = dh_handshake_state s"
      using False by (simp add: s2_def s1_def ssh_send_kex_def)
    then have "fst (dh_handshake (conn_dh x) s2) = fst (dh_handshake (conn_dh x) s)"
      by (rule dh_handshake_rc_state)
    with assms nk False have e: "fst (dh_handshake (conn_dh x) s2) = SSH_ERROR" by simp
    obtain rc s3 where d: "dh_handshake (conn_dh x) s2 = (rc, s3)"
      by (cases "dh_handshake (conn_dh x) s2") auto
    with e have "rc = SSH_ERROR" by simp
    with nk False k d have "case_KEXINIT_RECEIVED x s = connection_error s3"
      by (simp add: case_KEXINIT_RECEIVED_def s2_def)
    then show ?thesis ..
  qed
qed

text \<open>
  Claim C4. Whatever the state the connection callback is entered in, each failure it
  tests for (the banner cannot be analysed, no protocol version is usable by both sides,
  the key-exchange algorithms cannot be agreed or sent, the Diffie-Hellman handshake
  reports an error, or the state is \<open>ERROR\<close>) ends the same way: the socket is closed,
  \<open>alive\<close> is 0 and the state is \<open>ERROR\<close>.
\<close>

theorem connection_failure_terminal:
  assumes "connection_step_fails x s"
  shows "socket_open (ssh_client_connection_callback x s) = False
       \<and> alive (ssh_client_connection_callback x s) = 0
       \<and> session_state (ssh_client_connection_callback x s) = SSH_SESSION_STATE_ERROR"
proof (cases "session_state s")
  case SSH_SESSION_STATE_BANNER_RECEIVED
  with assms obtain s0 where "ssh_client_connection_callback x s = connection_error s0"
    using case_BANNER_RECEIVED_fails [of s x]
    by (auto simp: connection_step_fails_def ssh_client_connection_callback_def)
  then show ?thesis by (simp add: connection_error_outcome)
next
  case SSH_SESSION_STATE_INITIAL_KEX
  with assms show ?thesis
    by (simp add: connection_step_fails_def ssh_client_connection_callback_def
        case_INITIAL_KEX_def connection_error_outcome)
next
  case SSH_SESSION_STATE_KEXINIT_RECEIVED
  with assms obtain s0 where "ssh_client_connection_callback x s = connection_error s0"
    using case_KEXINIT_RECEIVED_fails [of x s]
    by (auto simp: connection_step_fails_def ssh_client_connection_callback_def)
  then show ?thesis by (simp add: connection_error_outcome)
next
  case SSH_SESSION_STATE_ERROR
  then show ?thesis
    by (simp add: ssh_client_connection_callback_def connection_error_outcome)
qed (use assms in \<open>simp_all add: connection_step_fails_def\<close>)

text \<open>The example: the key-exchange algorithms cannot be agreed (\<open>set_kex\<close> fails).\<close>

theorem connection_failure_terminal_witness:
  "connection_step_fails (conn_ok\<lparr>set_kex_r := -1\<rparr>)
     (example_session\<lparr>session_state := SSH_SESSION_STATE_KEXINIT_RECEIVED\<rparr>)
   \<and> socket_open (ssh_client_connection_callback (conn_ok\<lparr>set_kex_r := -1\<rparr>)
        (example_session\<lparr>session_state := SSH_SESSION_STATE_KEXINIT_RECEIVED\<rparr>)) = False
   \<and> alive (ssh_client_connection_callback (conn_ok\<lparr>set_kex_r := -1\<rparr>)
        (example_session\<lparr>session_state := SSH_SESSION_STATE_KEXINIT_RECEIVED\<rparr>)) = 0
   \<and> session_state (ssh_client_connection_callback (conn_ok\<lparr>set_kex_r := -1\<rparr>)
        (example_session\<lparr>session_state := SSH_SESSION_STATE_KEXINIT_RECEIVED\<rparr>))
       = SSH_SESSION_STATE_ERROR"
proof -
  have h: "connection_step_fails (conn_ok\<lparr>set_kex_r := -1\<rparr>)
     (example_session\<lparr>session_state := SSH_SESSION_STATE_KEXINIT_RECEIVED\<rparr>)"
    by (simp add: connection_step_fails_def example_session_def conn_ok_def)
  show ?thesis
    using h connection_failure_terminal [OF h] by simp
qed

subsection \<open>Key activation\<close>

lemma ssh_set_error_crypto [simp]:
  "current_crypto (ssh_set_error c m s) = current_crypto s"
  by (simp add: ssh_set_error_def)

lemma connection_error_crypto [simp]:
  "current_crypto (connection_error s) = current_crypto s"
  by (simp add: connection_error_def ssh_socket_close_def)

lemma dh_handshake_crypto [simp]:
  "current_crypto (snd (dh_handshake x s)) = current_crypto s"
  by (simp add: dh_handshake_def buffer_add_u8_def buffer_add_ssh_string_def packet_send_def
      split: ssh_dh_state_e.splits option.splits)

lemma dh_handshake_crypto_eq:
  "dh_handshake x s = (rc, s') \<Longrightarrow> current_crypto s' = current_crypto s"
  using dh_handshake_crypto [of x s] by simp

lemma banner_received_tail_crypto [simp]:
  "current_crypto (banner_received_tail x s) = current_crypto s"
  by (simp add: banner_received_tail_def ssh_send_banner_def ssh_socket_write_def Let_def)

lemma case_BANNER_RECEIVED_crypto [simp]:
  "current_crypto (case_BANNER_RECEIVED x s) = current_crypto s"
  by (simp add: case_BANNER_RECEIVED_def split: prod.splits)

lemma case_INITIAL_KEX_crypto [simp]:
  "current_crypto (case_INITIAL_KEX x s) = current_crypto s"
  by (simp add: case_INITIAL_KEX_def)

lemma case_DH_crypto [simp]:
  "current_crypto (case_DH s) = current_crypto s"
  by (simp add: case_DH_def)

lemma case_KEXINIT_RECEIVED_crypto [simp]:
  "current_crypto (case_KEXINIT_RECEIVED x s) = current_crypto s"
proof -
  have "current_crypto (snd (dh_handshake (conn_dh x) s')) = current_crypto s" 
    if "current_crypto s' = current_crypto s" for s'
    using that dh_handshake_crypto [of "conn_dh x" s'] by simp
  then show ?thesis
    by (auto simp: case_KEXINIT_RECEIVED_def ssh_send_kex_def split: prod.splits dest!: dh_handshake_crypto_eq)
qed

lemma conn_cb_crypto:
  "current_crypto (ssh_client_connection_callback x s) = current_crypto s"
  by (simp add: ssh_client_connection_callback_def split: ssh_session_state_e.splits)

lemma packet_error_crypto [simp]:
  "current_crypto (packet_error s) = current_crypto s"
  by (simp add: packet_error_def)

lemma socket_callback_connected_crypto:
  "(\<And>t. current_crypto (cb t) = current_crypto t) \<Longrightarrow>
     current_crypto (socket_callback_connected cb ok s) = current_crypto s"
  by (simp add: socket_callback_connected_def)

lemma banner_loop_crypto:
  "(\<And>t. current_crypto (cb t) = current_crypto t) \<Longrightarrow>
     current_crypto (snd (snd (callback_receive_banner_loop cb i buffer s))) = current_crypto s"
proof (induction cb i buffer s rule: callback_receive_banner_loop.induct)
  case (1 cb i buffer s)
  show ?case
    apply (subst callback_receive_banner_loop.simps)
    using 1 by (auto simp: Let_def)
qed

lemma callback_receive_banner_crypto:
  "(\<And>t. current_crypto (cb t) = current_crypto t) \<Longrightarrow>
     current_crypto (snd (snd (callback_receive_banner cb data s))) = current_crypto s"
  using banner_loop_crypto [of cb 0 data s]
  by (auto simp: callback_receive_banner_def split: prod.splits)

lemma ssh_packet_dh_reply_crypto:
  "current_crypto (ssh_packet_dh_reply x packet s) = current_crypto s"
  by (simp add: ssh_packet_dh_reply_def buffer_get_ssh_string_def buffer_add_u8_def
      packet_send_def Let_def split: list.splits wire_field.splits)

lemma step_crypto:
  "\<not> is_NEWKEYS e \<Longrightarrow> current_crypto (step e s) = current_crypto s"
  by (cases e)
     (simp_all add: socket_callback_connected_crypto callback_receive_banner_crypto
        conn_cb_crypto ssh_packet_dh_reply_crypto ssh_packet_service_accept_def)

lemma run_crypto:
  "\<not> list_ex is_NEWKEYS evs \<Longrightarrow> current_crypto (run evs s) = current_crypto s"
  by (induction evs arbitrary: s) (simp_all add: step_crypto)

lemma dh_reply_sends_newkeys:
  assumes "session_state s = SSH_SESSION_STATE_DH \<or> dh_handshake_state s = DH_STATE_INIT_SENT"
    and "0 \<le> dh_import_f_r rx" "0 \<le> dh_build_k_r rx" "reply_add_u8_ok rx" "reply_send_ok rx"
  shows "ssh_packet_dh_reply rx (SSH_String pubkey # SSH_String f # SSH_String sg # rest) s
       = s\<lparr>dh_server_signature := Some sg,
           socket_out := socket_out s @ [Packet (out_buffer s @ [U8 SSH2_MSG_NEWKEYS])],
           out_buffer := [],
           dh_handshake_state := DH_STATE_NEWKEYS_SENT\<rparr>"
  using assms
  by (auto simp: ssh_packet_dh_reply_def buffer_get_ssh_string_def buffer_add_u8_def
      packet_send_def Let_def)

lemma newkeys_swaps:
  assumes "session_state s = SSH_SESSION_STATE_DH \<or> dh_handshake_state s = DH_STATE_NEWKEYS_SENT"
    and "server s = 0" "make_sessionid_r nx = SSH_OK" "crypt_set_algorithms_r nx = 0"
    and "0 \<le> generate_session_keys_r nx" "signature_verify_r nx = 0"
  shows "current_crypto (ssh_packet_newkeys (ssh_client_connection_callback cx) nx s)
           = next_crypto s"
  using assms
  by (auto simp: ssh_packet_newkeys_def newkeys_finish_def conn_cb_crypto ssh_set_error_oom_def
      Let_def)

text \<open>
  Claim C1. In every run of the client's handlers the current cryptographic context stays
  what it was as long as no \<open>NEWKEYS\<close> packet of the peer has been handled. The
  \<open>KEXDH_REPLY\<close> handler, when it goes through, sends the client's \<open>NEWKEYS\<close>
  message and enters \<open>NEWKEYS_SENT\<close>; the \<open>NEWKEYS\<close> handler of a client, when the
  keys are derived and the signature verifies, puts the next context in the place of the
  current one.
\<close>

theorem key_activation_ordering:
  "(\<not> list_ex is_NEWKEYS evs \<longrightarrow> current_crypto (run evs s) = current_crypto s)
   \<and> ((session_state s = SSH_SESSION_STATE_DH \<or> dh_handshake_state s = DH_STATE_INIT_SENT)
        \<and> 0 \<le> dh_import_f_r rx \<and> 0 \<le> dh_build_k_r rx \<and> reply_add_u8_ok rx \<and> reply_send_ok rx
      \<longrightarrow> step (Ev_KEXDH_REPLY rx (SSH_String pubkey # SSH_String f # SSH_String sg # rest)) s
            = s\<lparr>dh_server_signature := Some sg,
                socket_out := socket_out s @ [Packet (out_buffer s @ [U8 SSH2_MSG_NEWKEYS])],
                out_buffer := [],
                dh_handshake_state := DH_STATE_NEWKEYS_SENT\<rparr>)
   \<and> ((session_state s = SSH_SESSION_STATE_DH \<or> dh_handshake_state s = DH_STATE_NEWKEYS_SENT)
        \<and> server s = 0 \<and> make_sessionid_r nx = SSH_OK \<and> crypt_set_algorithms_r nx = 0
        \<and> 0 \<le> generate_session_keys_r nx \<and> signature_verify_r nx = 0
      \<longrightarrow> current_crypto (step (Ev_NEWKEYS nx cx) s) = next_crypto s)"
  using run_crypto [of evs s] dh_reply_sends_newkeys [of s rx pubkey f sg rest]
        newkeys_swaps [of s nx cx]
  by simp

text \<open>
  The example: a session that has received the peer's algorithm lists runs the connection
  callback and handles the \<open>KEXDH_REPLY\<close>: the current context is still the initial one
  (none); the reply and the \<open>NEWKEYS\<close> handler at the states they are meant for.
\<close>

theorem key_activation_ordering_witness:
  "current_crypto
     (run [Ev_connection_callback conn_ok,
           Ev_KEXDH_REPLY dh_reply_ok [SSH_String ''k'', SSH_String ''f'', SSH_String ''s'']]
        (example_session\<lparr>session_state := SSH_SESSION_STATE_KEXINIT_RECEIVED\<rparr>)) = None
   \<and> dh_handshake_state
       (step (Ev_KEXDH_REPLY dh_reply_ok [SSH_String ''k'', SSH_String ''f'', SSH_String ''s''])
          (example_session\<lparr>session_state := SSH_SESSION_STATE_DH,
                            dh_handshake_state := DH_STATE_INIT_SENT\<rparr>)) = DH_STATE_NEWKEYS_SENT
   \<and> socket_out
       (step (Ev_KEXDH_REPLY dh_reply_ok [SSH_String ''k'', SSH_String ''f'', SSH_String ''s''])
          (example_session\<lparr>session_state := SSH_SESSION_STATE_DH,
                            dh_handshake_state := DH_STATE_INIT_SENT\<rparr>))
       = [Packet [U8 SSH2_MSG_NEWKEYS]]
   \<and> current_crypto
       (step (Ev_NEWKEYS newkeys_ok conn_ok)
          (example_session\<lparr>session_state := SSH_SESSION_STATE_DH,
                            dh_handshake_state := DH_STATE_NEWKEYS_SENT\<rparr>)) = Some 1"
  using key_activation_ordering
          [of "[Ev_connection_callback conn_ok,
                Ev_KEXDH_REPLY dh_reply_ok [SSH_String ''k'', SSH_String ''f'', SSH_String ''s'']]"
              "example_session\<lparr>session_state := SSH_SESSION_STATE_KEXINIT_RECEIVED\<rparr>"]
        key_activation_ordering
          [of "[]" "example_session\<lparr>session_state := SSH_SESSION_STATE_DH,
                                    dh_handshake_state := DH_STATE_INIT_SENT\<rparr>"
              dh_reply_ok "''k''" "''f''" "''s''" "[]"]
        key_activation_ordering
          [of "[]" "example_session\<lparr>session_state := SSH_SESSION_STATE_DH,
                                    dh_handshake_state := DH_STATE_NEWKEYS_SENT\<rparr>"
              dh_reply_ok "''k''" "''f''" "''s''" "[]" newkeys_ok conn_ok]
  by (simp add: example_session_def dh_reply_ok_def newkeys_ok_def)

subsection \<open>The banner callback\<close>

lemma loop_no_newline:
  "NL \<notin> set rest \<Longrightarrow> length (done @ rest) \<le> 128 \<Longrightarrow>
     callback_receive_banner_loop cb (length done) (done @ rest) s
       = (0, done @ map cr_to_nul rest, s)"
proof (induction rest arbitrary: "done")
  case Nil
  show ?case by (subst callback_receive_banner_loop.simps) simp
next
  case (Cons c rest)
  have ih: "callback_receive_banner_loop cb (length (done @ [cr_to_nul c]))
              ((done @ [cr_to_nul c]) @ rest) s
            = (0, (done @ [cr_to_nul c]) @ map cr_to_nul rest, s)"
    using Cons.prems by (intro Cons.IH) auto
  show ?case
    apply (subst callback_receive_banner_loop.simps)
    using Cons.prems ih by (auto simp: cr_to_nul_def Let_def)
qed

lemma loop_newline:
  "NL \<notin> set pre \<Longrightarrow> length (done @ pre) \<le> 128 \<Longrightarrow>
     callback_receive_banner_loop cb (length done) (done @ pre @ NL # post) s
       = (length done + length pre + 1, done @ map cr_to_nul pre @ NUL # post,
          cb (s\<lparr>serverbanner := Some (strdup (done @ map cr_to_nul pre @ NUL # post)),
                session_state := SSH_SESSION_STATE_BANNER_RECEIVED\<rparr>))"
proof (induction pre arbitrary: "done")
  case Nil
  show ?case by (subst callback_receive_banner_loop.simps) (simp add: Let_def)
next
  case (Cons c pre)
  have ih: "callback_receive_banner_loop cb (length (done @ [cr_to_nul c]))
              ((done @ [cr_to_nul c]) @ pre @ NL # post) s
            = (length (done @ [cr_to_nul c]) + length pre + 1,
               (done @ [cr_to_nul c]) @ map cr_to_nul pre @ NUL # post,
               cb (s\<lparr>serverbanner := Some (strdup ((done @ [cr_to_nul c]) @ map cr_to_nul pre @ NUL # post)),
                     session_state := SSH_SESSION_STATE_BANNER_RECEIVED\<rparr>))"
    using Cons.prems by (intro Cons.IH) auto
  show ?case
    apply (subst callback_receive_banner_loop.simps)
    using Cons.prems ih by (auto simp: cr_to_nul_def Let_def)
qed

lemma loop_too_long:
  "NL \<notin> set rest \<Longrightarrow> rest \<noteq> [] \<Longrightarrow> length (done @ rest) = 129 \<Longrightarrow>
     callback_receive_banner_loop cb (length done) (done @ rest @ post) s
       = (0, done @ map cr_to_nul rest @ post,
          ssh_set_error SSH_FATAL ''Receiving banner: too large banner''
            (s\<lparr>session_state := SSH_SESSION_STATE_ERROR\<rparr>))"
proof (induction rest arbitrary: "done")
  case Nil
  then show ?case by simp
next
  case (Cons c rest)
  show ?case
  proof (cases "rest = []")
    case True
    with Cons.prems have "length done = 128" by simp
    with True Cons.prems show ?thesis
      by (subst callback_receive_banner_loop.simps)
         (auto simp: cr_to_nul_def Let_def nth_append list_update_append)
  next
    case False
    have ih: "callback_receive_banner_loop cb (length (done @ [cr_to_nul c]))
                ((done @ [cr_to_nul c]) @ rest @ post) s
              = (0, (done @ [cr_to_nul c]) @ map cr_to_nul rest @ post,
                 ssh_set_error SSH_FATAL ''Receiving banner: too large banner''
                   (s\<lparr>session_state := SSH_SESSION_STATE_ERROR\<rparr>))"
      using Cons.prems False by (intro Cons.IH) auto
    from False Cons.prems have "length done < 128" by (cases rest) auto
    then show ?thesis
      apply (subst callback_receive_banner_loop.simps)
      using Cons.prems ih by (auto simp: cr_to_nul_def Let_def)
  qed
qed



lemma loop_represent:
  "NL \<notin> set d \<Longrightarrow> length (done @ d) \<le> 128 \<Longrightarrow>
     callback_receive_banner_loop cb (length done) (done @ map cr_to_nul d @ extra) s
       = callback_receive_banner_loop cb (length done) (done @ d @ extra) s"
proof (induction d arbitrary: "done")
  case Nil
  show ?case by simp
next
  case (Cons c d)
  have ih: "callback_receive_banner_loop cb (length (done @ [cr_to_nul c]))
              ((done @ [cr_to_nul c]) @ map cr_to_nul d @ extra) s
            = callback_receive_banner_loop cb (length (done @ [cr_to_nul c]))
              ((done @ [cr_to_nul c]) @ d @ extra) s"
    using Cons.prems by (intro Cons.IH) auto
  have l: "callback_receive_banner_loop cb (length done) (done @ map cr_to_nul (c # d) @ extra) s
         = callback_receive_banner_loop cb (length (done @ [cr_to_nul c]))
              ((done @ [cr_to_nul c]) @ map cr_to_nul d @ extra) s"
    apply (subst callback_receive_banner_loop.simps)
    using Cons.prems by (auto simp: cr_to_nul_def Let_def)
  have r: "callback_receive_banner_loop cb (length done) (done @ (c # d) @ extra) s
         = callback_receive_banner_loop cb (length (done @ [cr_to_nul c]))
              ((done @ [cr_to_nul c]) @ d @ extra) s"
    apply (subst callback_receive_banner_loop.simps)
    using Cons.prems by (auto simp: cr_to_nul_def Let_def)
  show ?case using l r ih by simp
qed


lemma strdup_line:
  "strdup (map cr_to_nul pre @ NUL # post) = takeWhile (\<lambda>c. c \<noteq> CR \<and> c \<noteq> NUL) pre"
  by (induction pre) (auto simp: strdup_def cr_to_nul_def)


lemma callback_receive_banner_line:
  assumes "session_state s = SSH_SESSION_STATE_SOCKET_CONNECTED"
    and "NL \<notin> set pre" and "length pre \<le> 128"
  shows "callback_receive_banner cb (pre @ NL # post) s
       = (Inr (length pre + 1), map cr_to_nul pre @ NUL # post,
          cb (s\<lparr>serverbanner := Some (takeWhile (\<lambda>c. c \<noteq> CR \<and> c \<noteq> NUL) pre),
                session_state := SSH_SESSION_STATE_BANNER_RECEIVED\<rparr>))"
  using assms loop_newline [of pre "[]" cb post s]
  by (simp add: callback_receive_banner_def strdup_line)

lemma callback_receive_banner_too_long:
  assumes "session_state s = SSH_SESSION_STATE_SOCKET_CONNECTED"
    and "129 \<le> length data" and "NL \<notin> set (take 129 data)"
  shows "callback_receive_banner cb data s
       = (Inr 0, map cr_to_nul (take 129 data) @ drop 129 data,
          ssh_set_error SSH_FATAL ''Receiving banner: too large banner''
            (s\<lparr>session_state := SSH_SESSION_STATE_ERROR\<rparr>))"
proof -
  have ne: "take 129 data \<noteq> []" using assms(2) by auto
  have len: "length ([] @ take 129 data) = 129" using assms(2) by simp
  have "callback_receive_banner_loop cb (length ([] :: string))
          ([] @ take 129 data @ drop 129 data) s
        = (0, [] @ map cr_to_nul (take 129 data) @ drop 129 data,
           ssh_set_error SSH_FATAL ''Receiving banner: too large banner''
             (s\<lparr>session_state := SSH_SESSION_STATE_ERROR\<rparr>))"
    using assms(3) ne len by (rule loop_too_long)
  then show ?thesis
    using assms(1) by (simp add: callback_receive_banner_def)
qed

lemma callback_receive_banner_partial:
  assumes "session_state s = SSH_SESSION_STATE_SOCKET_CONNECTED"
    and "NL \<notin> set data" and "length data \<le> 128"
  shows "callback_receive_banner cb data s = (Inr 0, map cr_to_nul data, s)"
  using assms loop_no_newline [of data "[]" cb s]
  by (simp add: callback_receive_banner_def)

lemma callback_receive_banner_represent:
  assumes "session_state s = SSH_SESSION_STATE_SOCKET_CONNECTED"
    and "NL \<notin> set data" and "length data \<le> 128"
  shows "callback_receive_banner cb (map cr_to_nul data @ extra) s
       = callback_receive_banner cb (data @ extra) s"
  using assms loop_represent [of data "[]" cb extra s]
  by (simp add: callback_receive_banner_def)

text \<open>
  Claim C2, as the code has it. In the state \<open>SOCKET_CONNECTED\<close>: when a newline comes
  with at most 128 bytes before it, the bytes before it, cut at the first carriage return
  or NUL, are stored as the server banner and the connection callback is invoked with the
  state \<open>BANNER_RECEIVED\<close>; when the chunk has at least 129 bytes and none of the first
  129 is a newline, the state becomes \<open>ERROR\<close> with a fatal error.
\<close>

theorem callback_receive_banner_limit:
  assumes "session_state s = SSH_SESSION_STATE_SOCKET_CONNECTED"
  shows "(NL \<notin> set pre \<and> length pre \<le> 128 \<longrightarrow>
            snd (snd (callback_receive_banner cb (pre @ NL # post) s))
              = cb (s\<lparr>serverbanner := Some (takeWhile (\<lambda>c. c \<noteq> CR \<and> c \<noteq> NUL) pre),
                      session_state := SSH_SESSION_STATE_BANNER_RECEIVED\<rparr>))
       \<and> (129 \<le> length data \<and> NL \<notin> set (take 129 data) \<longrightarrow>
            snd (snd (callback_receive_banner cb data s))
              = ssh_set_error SSH_FATAL ''Receiving banner: too large banner''
                  (s\<lparr>session_state := SSH_SESSION_STATE_ERROR\<rparr>)
            \<and> session_state (snd (snd (callback_receive_banner cb data s)))
                = SSH_SESSION_STATE_ERROR
            \<and> error_code (snd (snd (callback_receive_banner cb data s))) = SSH_FATAL)"
  using assms callback_receive_banner_line [of s pre cb post]
        callback_receive_banner_too_long [of s data cb]
  by (simp add: ssh_set_error_def)

text \<open>
  The example: the banner line of a server that ends lines with carriage return and
  newline, and a chunk of 130 bytes without a newline.
\<close>

theorem callback_receive_banner_limit_witness:
  "serverbanner
     (snd (snd (callback_receive_banner id (''SSH-2.0-test'' @ [CR] @ NL # [])
        (example_session\<lparr>session_state := SSH_SESSION_STATE_SOCKET_CONNECTED\<rparr>))))
     = Some ''SSH-2.0-test''
   \<and> session_state
     (snd (snd (callback_receive_banner id (''SSH-2.0-test'' @ [CR] @ NL # [])
        (example_session\<lparr>session_state := SSH_SESSION_STATE_SOCKET_CONNECTED\<rparr>))))
     = SSH_SESSION_STATE_BANNER_RECEIVED
   \<and> session_state
     (snd (snd (callback_receive_banner id (replicate 130 (CHR ''a''))
        (example_session\<lparr>session_state := SSH_SESSION_STATE_SOCKET_CONNECTED\<rparr>))))
     = SSH_SESSION_STATE_ERROR"
  using callback_receive_banner_limit
          [of "example_session\<lparr>session_state := SSH_SESSION_STATE_SOCKET_CONNECTED\<rparr>"
              "''SSH-2.0-test'' @ [CR]" id "[]" "replicate 130 (CHR ''a'')"]
  by (simp add: example_session_def ssh_set_error_def)

text \<open>
  The claim as first stated fails: 128 bytes without a newline followed by a newline are
  accepted as a banner, and 128 such bytes alone leave the session waiting in the state
  \<open>SOCKET_CONNECTED\<close>; in neither case does the state become \<open>ERROR\<close>.
\<close>

theorem callback_receive_banner_limit_counterexample:
  "NL \<notin> set (take 128 (replicate 128 (CHR ''a'') @ NL # []))
   \<and> session_state
       (snd (snd (callback_receive_banner id (replicate 128 (CHR ''a'') @ NL # [])
          (example_session\<lparr>session_state := SSH_SESSION_STATE_SOCKET_CONNECTED\<rparr>))))
       = SSH_SESSION_STATE_BANNER_RECEIVED
   \<and> session_state
       (snd (snd (callback_receive_banner id (replicate 128 (CHR ''a'') @ NL # [])
          (example_session\<lparr>session_state := SSH_SESSION_STATE_SOCKET_CONNECTED\<rparr>))))
       \<noteq> SSH_SESSION_STATE_ERROR
   \<and> NL \<notin> set (take 128 (replicate 128 (CHR ''a'')))
   \<and> session_state
       (snd (snd (callback_receive_banner id (replicate 128 (CHR ''a''))
          (example_session\<lparr>session_state := SSH_SESSION_STATE_SOCKET_CONNECTED\<rparr>))))
       = SSH_SESSION_STATE_SOCKET_CONNECTED"
  using callback_receive_banner_line
          [of "example_session\<lparr>session_state := SSH_SESSION_STATE_SOCKET_CONNECTED\<rparr>"
              "replicate 128 (CHR ''a'')" id "[]"]
        callback_receive_banner_partial
          [of "example_session\<lparr>session_state := SSH_SESSION_STATE_SOCKET_CONNECTED\<rparr>"
              "replicate 128 (CHR ''a'')" id]
  by (simp add: example_session_def)

text \<open>
  Claim C9. In the state \<open>SOCKET_CONNECTED\<close> the callback consumes nothing past the
  first newline: with the first newline at index \<open>i\<close>, \<open>i \<le> 128\<close>, it returns
  \<open>i + 1\<close>. For a chunk of at most 128 bytes without a newline it returns 0 and leaves
  the session as it is; in the buffer the carriage returns it passed are NUL, and when
  that buffer comes back with more bytes behind it the outcome is the one the original
  bytes would have given.
\<close>

theorem callback_receive_banner_consumes:
  assumes "session_state s = SSH_SESSION_STATE_SOCKET_CONNECTED"
  shows "(NL \<notin> set pre \<and> length pre \<le> 128 \<longrightarrow>
            fst (callback_receive_banner cb (pre @ NL # post) s) = Inr (length pre + 1))
       \<and> (NL \<notin> set data \<and> length data \<le> 128 \<longrightarrow>
            callback_receive_banner cb data s = (Inr 0, map cr_to_nul data, s)
            \<and> callback_receive_banner cb (map cr_to_nul data @ extra) s
                = callback_receive_banner cb (data @ extra) s)"
  using assms callback_receive_banner_line [of s pre cb post]
        callback_receive_banner_partial [of s data cb]
        callback_receive_banner_represent [of s data cb extra]
  by simp

text \<open>
  The example: the banner arrives in two reads; the first holds no newline, the second
  presents the same bytes again with the rest of the line.
\<close>

theorem callback_receive_banner_consumes_witness:
  "fst (callback_receive_banner id (''SSH-2.0-test'' @ [CR] @ NL # ''more'')
          (example_session\<lparr>session_state := SSH_SESSION_STATE_SOCKET_CONNECTED\<rparr>)) = Inr 14
   \<and> callback_receive_banner id ''SSH-2.0-''
          (example_session\<lparr>session_state := SSH_SESSION_STATE_SOCKET_CONNECTED\<rparr>)
       = (Inr 0, ''SSH-2.0-'',
          example_session\<lparr>session_state := SSH_SESSION_STATE_SOCKET_CONNECTED\<rparr>)
   \<and> fst (callback_receive_banner id (''SSH-2.0-'' @ ''test'' @ [CR] @ NL # [])
          (example_session\<lparr>session_state := SSH_SESSION_STATE_SOCKET_CONNECTED\<rparr>)) = Inr 14"
  using callback_receive_banner_consumes
          [of "example_session\<lparr>session_state := SSH_SESSION_STATE_SOCKET_CONNECTED\<rparr>"
              "''SSH-2.0-test'' @ [CR]" id "''more''" "''SSH-2.0-''"]
        callback_receive_banner_consumes
          [of "example_session\<lparr>session_state := SSH_SESSION_STATE_SOCKET_CONNECTED\<rparr>"
              "''SSH-2.0-test'' @ [CR]" id "[]" "''SSH-2.0-''"]
  by (simp add: example_session_def cr_to_nul_def)

subsection \<open>Timeouts of ssh_connect\<close>

lemma connect_timeout_ms_pending [simp]:
  "connect_timeout_ms (s\<lparr>pending_call_state := v\<rparr>) = connect_timeout_ms s"
  by (simp add: connect_timeout_ms_def)

lemma ssh_connect_termination_ERROR [simp]:
  "ssh_connect_termination (s\<lparr>session_state := SSH_SESSION_STATE_ERROR\<rparr>)"
  by (simp add: ssh_connect_termination_def)

lemma ssh_connect_termination_pending [simp]:
  "ssh_connect_termination (s\<lparr>pending_call_state := v\<rparr>) = ssh_connect_termination s"
  by (simp add: ssh_connect_termination_def)

lemma not_terminated_not_ERROR:
  "\<not> ssh_connect_termination r \<Longrightarrow> session_state r \<noteq> SSH_SESSION_STATE_ERROR"
  by (auto simp: ssh_connect_termination_def)

lemma connect_pending_blocking_timeout:
  assumes "blocking s"
    and "\<not> ssh_connect_termination
           (handle_packets_termination x (s\<lparr>pending_call_state := SSH_PENDING_CALL_CONNECT\<rparr>)
              (connect_timeout_ms s))"
  shows "connect_pending x s
       = (SSH_ERROR,
          (ssh_set_error SSH_FATAL ''Timeout connecting to %s''
             (handle_packets_termination x (s\<lparr>pending_call_state := SSH_PENDING_CALL_CONNECT\<rparr>)
                (connect_timeout_ms s)))
            \<lparr>session_state := SSH_SESSION_STATE_ERROR,
              pending_call_state := SSH_PENDING_CALL_NONE\<rparr>)"
  using assms
  by (simp add: connect_pending_def Let_def)

lemma connect_pending_nonblocking_again:
  assumes "\<not> blocking s"
    and "\<not> blocking (handle_packets_termination x (s\<lparr>pending_call_state := SSH_PENDING_CALL_CONNECT\<rparr>) 0)"
    and "\<not> ssh_connect_termination
               (handle_packets_termination x (s\<lparr>pending_call_state := SSH_PENDING_CALL_CONNECT\<rparr>) 0)"
  shows "connect_pending x s
          = (SSH_AGAIN, handle_packets_termination x (s\<lparr>pending_call_state := SSH_PENDING_CALL_CONNECT\<rparr>) 0)"
  using assms
  by (simp add: connect_pending_def Let_def)

lemma connect_pending_again_only:
  assumes "fst (connect_pending x s) = SSH_AGAIN"
  shows "\<not> blocking (snd (connect_pending x s))
       \<and> \<not> ssh_connect_termination (snd (connect_pending x s))"
  using assms
  by (simp add: connect_pending_def Let_def split: if_splits)

lemma connect_start_returns_error_case:
  "(case connect_start x s of Inl r \<Rightarrow> fst r = SSH_ERROR | Inr s' \<Rightarrow> True)"
  by (simp add: connect_start_def Let_def split: prod.splits)

lemma connect_start_returns_error:
  "connect_start x s = Inl r \<Longrightarrow> fst r = SSH_ERROR"
  using connect_start_returns_error_case [of x s] by simp

lemma ssh_connect_again_only:
  assumes "fst (ssh_connect x sopt) = SSH_AGAIN"
  shows "\<exists>r. snd (ssh_connect x sopt) = Some r \<and> \<not> blocking r
            \<and> \<not> ssh_connect_termination r \<and> session_state r \<noteq> SSH_SESSION_STATE_ERROR"
proof (cases sopt)
  case None
  with assms show ?thesis by (simp add: ssh_connect_def)
next
  case (Some s)
  show ?thesis
  proof (cases "pending_call_state s")
    case SSH_PENDING_CALL_NONE
    show ?thesis
    proof (cases "connect_start x s")
      case (Inl r)
      with assms Some SSH_PENDING_CALL_NONE connect_start_returns_error [OF Inl]
      show ?thesis by (simp add: ssh_connect_def)
    next
      case (Inr s')
      with assms Some SSH_PENDING_CALL_NONE
      have a: "fst (connect_pending x s') = SSH_AGAIN"
        and e: "ssh_connect x sopt = map_prod id Some (connect_pending x s')"
        by (simp_all add: ssh_connect_def)
      from connect_pending_again_only [OF a] not_terminated_not_ERROR e
      show ?thesis by simp
    qed
  next
    case SSH_PENDING_CALL_CONNECT
    with assms Some
    have a: "fst (connect_pending x s) = SSH_AGAIN"
      and e: "ssh_connect x sopt = map_prod id Some (connect_pending x s)"
      by (simp_all add: ssh_connect_def)
    from connect_pending_again_only [OF a] not_terminated_not_ERROR e
    show ?thesis by simp
  next
    case (SSH_PENDING_CALL_OTHER n)
    with assms Some show ?thesis by (simp add: ssh_connect_def)
  qed
qed

lemma ssh_connect_reaches_pending:
  assumes "(pending_call_state s = SSH_PENDING_CALL_CONNECT \<and> s0 = s)
         \<or> (pending_call_state s = SSH_PENDING_CALL_NONE \<and> connect_start x s = Inr s0)"
  shows "ssh_connect x (Some s) = map_prod id Some (connect_pending x s0)"
  using assms by (auto simp: ssh_connect_def)

text \<open>
  Claim C5, as the code has it. Once \<open>ssh_connect\<close> has reached its label
  \<open>pending\<close>, in a first call or in a re-entered one: a blocking call whose pump, run
  with the timeout computed from the session (ten seconds when that is zero), stops before
  the session has reached a terminal state records the fatal error "Timeout connecting",
  puts the session into \<open>ERROR\<close> and returns \<open>SSH_ERROR\<close>; a non-blocking call
  whose pump has not reached a terminal state returns \<open>SSH_AGAIN\<close>, handing back the
  session as the pump left it. \<open>SSH_AGAIN\<close> is returned in no other case: whenever
  \<open>ssh_connect\<close> returns it, the session is non-blocking and in no terminal state, so
  not in \<open>ERROR\<close>. When the poll of \<open>ssh_connect_ai_timeout\<close> times out, a fatal
  error is recorded, the descriptor is closed and the result is -1.
\<close>

theorem connect_timeout_outcome:
  assumes "(pending_call_state s = SSH_PENDING_CALL_CONNECT \<and> s0 = s)
         \<or> (pending_call_state s = SSH_PENDING_CALL_NONE \<and> connect_start x s = Inr s0)"
    and "sp = s0\<lparr>pending_call_state := SSH_PENDING_CALL_CONNECT\<rparr>"
  shows "(blocking sp
          \<and> \<not> ssh_connect_termination (handle_packets_termination x sp (connect_timeout_ms sp)) \<longrightarrow>
            fst (ssh_connect x (Some s)) = SSH_ERROR
          \<and> snd (ssh_connect x (Some s))
              = Some ((ssh_set_error SSH_FATAL ''Timeout connecting to %s''
                         (handle_packets_termination x sp (connect_timeout_ms sp)))
                        \<lparr>session_state := SSH_SESSION_STATE_ERROR,
                          pending_call_state := SSH_PENDING_CALL_NONE\<rparr>)
          \<and> map_option session_state (snd (ssh_connect x (Some s)))
              = Some SSH_SESSION_STATE_ERROR
          \<and> map_option error_code (snd (ssh_connect x (Some s))) = Some SSH_FATAL
          \<and> map_option error_buffer (snd (ssh_connect x (Some s)))
              = Some ''Timeout connecting to %s'')
       \<and> (\<not> blocking sp \<and> \<not> blocking (handle_packets_termination x sp 0)
            \<and> \<not> ssh_connect_termination (handle_packets_termination x sp 0) \<longrightarrow>
            ssh_connect x (Some s) = (SSH_AGAIN, Some (handle_packets_termination x sp 0)))
       \<and> (fst (ssh_connect x' sopt) = SSH_AGAIN \<longrightarrow>
            (\<exists>r. snd (ssh_connect x' sopt) = Some r \<and> \<not> blocking r
                 \<and> \<not> ssh_connect_termination r
                 \<and> session_state r \<noteq> SSH_SESSION_STATE_ERROR))
       \<and> (poll_r ax = 0 \<longrightarrow>
            ssh_connect_ai_timeout ax s tmo usec sock
              = (-1, ssh_set_error SSH_FATAL ''Timeout while connecting to %s:%d'' s,
                 [Set_nonblocking sock, Connect sock,
                  Poll sock (int32 (tmo * 1000 + c_div usec 1000)), Close sock]))"
proof -
  have r: "ssh_connect x (Some s) = map_prod id Some (connect_pending x s0)"
    using assms(1) by (rule ssh_connect_reaches_pending)
  have sp: "s0\<lparr>pending_call_state := SSH_PENDING_CALL_CONNECT\<rparr> = sp"
    using assms(2) by simp
  have b: "blocking s0 = blocking sp"
    unfolding assms(2) by simp
  have t: "connect_timeout_ms s0 = connect_timeout_ms sp"
    unfolding assms(2) by simp
  have one: "blocking sp
          \<and> \<not> ssh_connect_termination (handle_packets_termination x sp (connect_timeout_ms sp)) \<longrightarrow>
            fst (ssh_connect x (Some s)) = SSH_ERROR
          \<and> snd (ssh_connect x (Some s))
              = Some ((ssh_set_error SSH_FATAL ''Timeout connecting to %s''
                         (handle_packets_termination x sp (connect_timeout_ms sp)))
                        \<lparr>session_state := SSH_SESSION_STATE_ERROR,
                          pending_call_state := SSH_PENDING_CALL_NONE\<rparr>)
          \<and> map_option session_state (snd (ssh_connect x (Some s)))
              = Some SSH_SESSION_STATE_ERROR
          \<and> map_option error_code (snd (ssh_connect x (Some s))) = Some SSH_FATAL
          \<and> map_option error_buffer (snd (ssh_connect x (Some s)))
              = Some ''Timeout connecting to %s''"
  proof (intro impI)
    assume h: "blocking sp
          \<and> \<not> ssh_connect_termination (handle_packets_termination x sp (connect_timeout_ms sp))"
    have h1: "blocking s0" using h b by simp
    have h2: "\<not> ssh_connect_termination
           (handle_packets_termination x (s0\<lparr>pending_call_state := SSH_PENDING_CALL_CONNECT\<rparr>)
              (connect_timeout_ms s0))"
      using h unfolding sp t by simp
    have cp: "connect_pending x s0
       = (SSH_ERROR,
          (ssh_set_error SSH_FATAL ''Timeout connecting to %s''
             (handle_packets_termination x sp (connect_timeout_ms sp)))
            \<lparr>session_state := SSH_SESSION_STATE_ERROR,
              pending_call_state := SSH_PENDING_CALL_NONE\<rparr>)"
      using connect_pending_blocking_timeout [OF h1 h2] unfolding sp t .
    show "fst (ssh_connect x (Some s)) = SSH_ERROR
          \<and> snd (ssh_connect x (Some s))
              = Some ((ssh_set_error SSH_FATAL ''Timeout connecting to %s''
                         (handle_packets_termination x sp (connect_timeout_ms sp)))
                        \<lparr>session_state := SSH_SESSION_STATE_ERROR,
                          pending_call_state := SSH_PENDING_CALL_NONE\<rparr>)
          \<and> map_option session_state (snd (ssh_connect x (Some s)))
              = Some SSH_SESSION_STATE_ERROR
          \<and> map_option error_code (snd (ssh_connect x (Some s))) = Some SSH_FATAL
          \<and> map_option error_buffer (snd (ssh_connect x (Some s)))
              = Some ''Timeout connecting to %s''"
      unfolding r cp by (simp add: ssh_set_error_def)
  qed
  have two: "\<not> blocking sp \<and> \<not> blocking (handle_packets_termination x sp 0)
            \<and> \<not> ssh_connect_termination (handle_packets_termination x sp 0) \<longrightarrow>
            ssh_connect x (Some s) = (SSH_AGAIN, Some (handle_packets_termination x sp 0))"
  proof (intro impI)
    assume h: "\<not> blocking sp \<and> \<not> blocking (handle_packets_termination x sp 0)
            \<and> \<not> ssh_connect_termination (handle_packets_termination x sp 0)"
    have h1: "\<not> blocking s0" using h b by simp
    have h2: "\<not> blocking (handle_packets_termination x
                 (s0\<lparr>pending_call_state := SSH_PENDING_CALL_CONNECT\<rparr>) 0)"
      using h unfolding sp by simp
    have h3: "\<not> ssh_connect_termination (handle_packets_termination x
                 (s0\<lparr>pending_call_state := SSH_PENDING_CALL_CONNECT\<rparr>) 0)"
      using h unfolding sp by simp
    have cp: "connect_pending x s0 = (SSH_AGAIN, handle_packets_termination x sp 0)"
      using connect_pending_nonblocking_again [OF h1 h2 h3] unfolding sp .
    show "ssh_connect x (Some s) = (SSH_AGAIN, Some (handle_packets_termination x sp 0))"
      unfolding r cp by simp
  qed
  have three: "fst (ssh_connect x' sopt) = SSH_AGAIN \<longrightarrow>
            (\<exists>r. snd (ssh_connect x' sopt) = Some r \<and> \<not> blocking r
                 \<and> \<not> ssh_connect_termination r
                 \<and> session_state r \<noteq> SSH_SESSION_STATE_ERROR)"
    by (intro impI) (rule ssh_connect_again_only)
  have four: "poll_r ax = 0 \<longrightarrow>
            ssh_connect_ai_timeout ax s tmo usec sock
              = (-1, ssh_set_error SSH_FATAL ''Timeout while connecting to %s:%d'' s,
                 [Set_nonblocking sock, Connect sock,
                  Poll sock (int32 (tmo * 1000 + c_div usec 1000)), Close sock])"
    by (simp add: ssh_connect_ai_timeout_def Let_def)
  show ?thesis
    by (rule conjI [OF one conjI [OF two conjI [OF three four]]])
qed

lemma example_connect_start:
  "connect_start connect_idle example_session
     = Inr (example_session\<lparr>alive := 1, client := 1, sshdir := Some ''~/.ssh'',
              username := Some ''user'', knownhosts := Some ''%d/known_hosts'',
              session_state := SSH_SESSION_STATE_CONNECTING,
              socket_data_callback := Callback_receive_banner\<rparr>)"
  by (simp add: connect_start_def ssh_options_apply_def ssh_options_set_SSH_DIR_def
      ssh_options_set_USER_def example_session_def connect_idle_def Let_def)

lemma example_int32: "int32 (2147484 * 1000 + c_div 0 1000) = -2147483296"
  by (simp add: int32_def c_div_def)

lemma example_connect_start_slow:
  "connect_start connect_slow example_session
     = Inr (example_session\<lparr>alive := 1, client := 1, sshdir := Some ''~/.ssh'',
              username := Some ''user'', knownhosts := Some ''%d/known_hosts'',
              session_state := SSH_SESSION_STATE_CONNECTING,
              socket_data_callback := Callback_receive_banner\<rparr>)"
  by (simp add: connect_start_def ssh_options_apply_def ssh_options_set_SSH_DIR_def
      ssh_options_set_USER_def example_session_def connect_slow_def connect_idle_def Let_def)

text \<open>
  The example: a blocking first call whose pump makes no progress; one whose pump would
  need twenty seconds against the default of ten; a re-entered non-blocking call whose
  pump makes no progress; and a poll that times out, with a timeout of 2147484 seconds,
  which does not fit the \<open>int\<close>.
\<close>

theorem connect_timeout_outcome_witness:
  "fst (ssh_connect connect_idle (Some example_session)) = SSH_ERROR
   \<and> map_option session_state (snd (ssh_connect connect_idle (Some example_session)))
       = Some SSH_SESSION_STATE_ERROR
   \<and> fst (ssh_connect connect_slow (Some example_session)) = SSH_ERROR
   \<and> fst (ssh_connect connect_idle
             (Some (example_session\<lparr>blocking := False,
                      session_state := SSH_SESSION_STATE_CONNECTING,
                      pending_call_state := SSH_PENDING_CALL_CONNECT\<rparr>))) = SSH_AGAIN
   \<and> map_option session_state
        (snd (ssh_connect connect_idle
                (Some (example_session\<lparr>blocking := False,
                         session_state := SSH_SESSION_STATE_CONNECTING,
                         pending_call_state := SSH_PENDING_CALL_CONNECT\<rparr>))))
       = Some SSH_SESSION_STATE_CONNECTING
   \<and> snd (snd (ssh_connect_ai_timeout \<lparr>poll_r = 0, so_error = 0\<rparr> example_session 2147484 0 7))
       = [Set_nonblocking 7, Connect 7, Poll 7 (-2147483296), Close 7]"
proof -
  let ?s0 = "example_session\<lparr>alive := 1, client := 1, sshdir := Some ''~/.ssh'',
              username := Some ''user'', knownhosts := Some ''%d/known_hosts'',
              session_state := SSH_SESSION_STATE_CONNECTING,
              socket_data_callback := Callback_receive_banner\<rparr>"
  let ?s1 = "example_session\<lparr>blocking := False,
                      session_state := SSH_SESSION_STATE_CONNECTING,
                      pending_call_state := SSH_PENDING_CALL_CONNECT\<rparr>"
  have r1: "(pending_call_state example_session = SSH_PENDING_CALL_CONNECT \<and> ?s0 = example_session)
         \<or> (pending_call_state example_session = SSH_PENDING_CALL_NONE
             \<and> connect_start connect_idle example_session = Inr ?s0)"
    using example_connect_start by (simp add: example_session_def)
  have r2: "(pending_call_state example_session = SSH_PENDING_CALL_CONNECT \<and> ?s0 = example_session)
         \<or> (pending_call_state example_session = SSH_PENDING_CALL_NONE
             \<and> connect_start connect_slow example_session = Inr ?s0)"
    using example_connect_start_slow by (simp add: example_session_def)
  have r3: "(pending_call_state ?s1 = SSH_PENDING_CALL_CONNECT \<and> ?s1 = ?s1)
         \<or> (pending_call_state ?s1 = SSH_PENDING_CALL_NONE
             \<and> connect_start connect_idle ?s1 = Inr ?s1)"
    by simp
  have i: "int32 (2147484 * 1000 + c_div 0 1000) = -2147483296"
    by (simp add: int32_def c_div_def)
  have t0: "connect_timeout_ms (?s0\<lparr>pending_call_state := SSH_PENDING_CALL_CONNECT\<rparr>) = 10000"
    by (simp add: connect_timeout_ms_def int32_def c_div_def example_session_def)
  show ?thesis
    using i t0
      connect_timeout_outcome [OF r1 refl, of connect_idle None "\<lparr>poll_r = 0, so_error = 0\<rparr>"
         2147484 0 7]
      connect_timeout_outcome [OF r2 refl, of connect_idle None "\<lparr>poll_r = 0, so_error = 0\<rparr>"
         2147484 0 7]
      connect_timeout_outcome [OF r3 refl, of connect_idle None "\<lparr>poll_r = 0, so_error = 0\<rparr>"
         2147484 0 7]
    by (simp add: example_session_def connect_idle_def connect_slow_def
        ssh_connect_termination_def ssh_set_error_def)
qed

text \<open>
  The claim as first stated fails: for a blocking session whose pump stops with the
  connection still in progress, \<open>ssh_connect\<close> returns \<open>SSH_ERROR\<close>, not
  \<open>SSH_AGAIN\<close>, and the session is in the state \<open>ERROR\<close>.
\<close>

theorem connect_timeout_counterexample:
  "blocking example_session
   \<and> fst (ssh_connect connect_idle (Some example_session)) = SSH_ERROR
   \<and> fst (ssh_connect connect_idle (Some example_session)) \<noteq> SSH_AGAIN
   \<and> map_option session_state (snd (ssh_connect connect_idle (Some example_session)))
       = Some SSH_SESSION_STATE_ERROR"
proof -
  let ?s0 = "example_session\<lparr>alive := 1, client := 1, sshdir := Some ''~/.ssh'',
              username := Some ''user'', knownhosts := Some ''%d/known_hosts'',
              session_state := SSH_SESSION_STATE_CONNECTING,
              socket_data_callback := Callback_receive_banner\<rparr>"
  have r: "ssh_connect connect_idle (Some example_session)
           = map_prod id Some (connect_pending connect_idle ?s0)"
    by (rule ssh_connect_reaches_pending)
       (simp add: example_connect_start, simp add: example_session_def)
  have t: "connect_pending connect_idle ?s0
       = (SSH_ERROR,
          (ssh_set_error SSH_FATAL ''Timeout connecting to %s''
             (handle_packets_termination connect_idle
                (?s0\<lparr>pending_call_state := SSH_PENDING_CALL_CONNECT\<rparr>)
                (connect_timeout_ms ?s0)))
            \<lparr>session_state := SSH_SESSION_STATE_ERROR,
              pending_call_state := SSH_PENDING_CALL_NONE\<rparr>)"
    by (rule connect_pending_blocking_timeout)
       (simp_all add: example_session_def connect_idle_def ssh_connect_termination_def)
  have b: "blocking example_session" by (simp add: example_session_def)
  show ?thesis unfolding r t using b by simp
qed

subsection \<open>ssh_select\<close>


lemma keeps_trans: "keeps w w' \<Longrightarrow> keeps w' w'' \<Longrightarrow> keeps w w''"
  by (simp add: keeps_def)




















end
